theory Spec2Isabelle
  imports Main "HOL-Library.AList"
begin

section \<open>Data model of the binding tree\<close>

text \<open>
  The enumerations of \<^verbatim>\<open>kernelfunctions.core\<close> that the binding tree uses.
  \<^verbatim>\<open>AccessType\<close>, \<^verbatim>\<open>CallMode\<close> and \<^verbatim>\<open>IOType\<close> keep the member names of the
  source (\<^verbatim>\<open>IOType.inn\<close> is the source's spelling of "in").
\<close>

datatype AccessType = none | read | "write" | readwrite

datatype CallMode = prim | bwds | fwds

datatype IOType = inn | out | inout

text \<open>
  \<^verbatim>\<open>PrimType\<close> indexes the access pair: \<^verbatim>\<open>primal\<close> has value 0 and
  \<^verbatim>\<open>derivative\<close> has value 1.
\<close>

datatype PrimType = PrimType_primal | PrimType_derivative

text \<open>
  A \<^verbatim>\<open>BaseType\<close> is an opaque type marshall; only its name is read by the code
  modelled here. Its methods (\<^verbatim>\<open>reduce_type\<close>, \<^verbatim>\<open>resolve_type\<close>,
  \<^verbatim>\<open>resolve_dimensionality\<close>, \<^verbatim>\<open>gen_calldata\<close>) are implemented per host type
  outside the modelled files and are passed to the model as parameters.
\<close>

datatype BaseType = BaseType (type_name: string)

text \<open>
  \<^verbatim>\<open>Shape\<close> (native): an ordered sequence of integers with a \<^verbatim>\<open>valid\<close> flag.
  \<^verbatim>\<open>Shape(*m)\<close> builds a valid shape; an unset vector mapping is an invalid one.
\<close>

record Shape =
  valid :: bool
  as_tuple :: "int list"

definition Shape_of :: "int list \<Rightarrow> Shape" where
  "Shape_of m = \<lparr>valid = True, as_tuple = m\<rparr>"

definition Shape_invalid :: Shape where
  "Shape_invalid = \<lparr>valid = False, as_tuple = []\<rparr>"

record BindContext =
  call_mode :: CallMode
  ctx_call_dimensionality :: int

text \<open>
  The host-side node. \<^verbatim>\<open>fields\<close> is an insertion-ordered dict, modelled as an
  association list (its keys are distinct, being dict keys).
\<close>

datatype PythonVariable = PythonVariable
  (py_name: string)
  (py_primal: BaseType)
  (vector_type: "BaseType option")
  (vector_mapping: Shape)
  (writable: bool)
  (py_differentiable: bool)
  (py_fields: "(string \<times> PythonVariable) list option")

text \<open>The kernel-side node.\<close>

datatype SlangVariable = SlangVariable
  (name: string)
  (primal: BaseType)
  (derivative: "BaseType option")
  (io_type: IOType)
  (no_diff: bool)
  (primal_type_name: string)
  (derivative_type_name: string)
  (sl_fields: "(string \<times> SlangVariable) list option")

text \<open>
  \<^verbatim>\<open>BoundVariable\<close>: the pairing of one host-side and one kernel-side node, with the
  derived binding data and the optional children (an ordered dict).
\<close>

datatype BoundVariable = BoundVariable
  (python: PythonVariable)
  (slang: SlangVariable)
  (path: string)
  (variable_name: string)
  (access: "AccessType \<times> AccessType")
  (differentiable: bool)
  (call_dimensionality: "int option")
  (children: "(string \<times> BoundVariable) list option")

text \<open>
  The exceptions the modelled code raises or lets through. The argument is the message;
  for \<^verbatim>\<open>KeyError\<close> it is the missing key, for \<^verbatim>\<open>ImportError\<close> the name that
  cannot be imported, for \<^verbatim>\<open>UnboundLocalError\<close> the local variable that is read
  before it is assigned. \<^verbatim>\<open>PythonVariableException\<close> and
  \<^verbatim>\<open>BoundVariableException\<close> carry their \<^verbatim>\<open>variable\<close>.
\<close>

datatype exn =
    ValueError string
  | AssertionError
  | IndexError
  | KeyError string
  | AttributeError string
  | ImportError string
  | UnboundLocalError string
  | KernelGenException string
  | PythonVariableException string PythonVariable
  | BoundVariableException string BoundVariable
  | SlangCompileError string
  | OtherException string

text \<open>
  The code emission target. \<^verbatim>\<open>CodeGenBlock\<close> is implemented outside the modelled
  files and its text is never inspected by the binding tree, so a block is modelled as the
  sequence of the calls made on it, in order, with their arguments.
\<close>

datatype emit =
    cgb_begin_struct string
  | cgb_end_struct
  | cgb_declare string string
  | cgb_append_statement string
  | cgb_append_line string
  | cgb_empty_line
  | cgb_begin_block
  | cgb_end_block
  | cgb_assign string string
  | cgb_type_alias string string
  | cgb_add_import string

type_synonym CodeGenBlock = "emit list"

record CodeGen =
  call_data_structs :: CodeGenBlock
  call_data :: CodeGenBlock

text \<open>Attribute assignment on the nodes (\<^verbatim>\<open>self.access = ...\<close> and the like).\<close>

fun set_access :: "BoundVariable \<Rightarrow> AccessType \<times> AccessType \<Rightarrow> BoundVariable" where
  "set_access (BoundVariable py sl p vn acc d cd ch) v = BoundVariable py sl p vn v d cd ch"

fun set_differentiable :: "BoundVariable \<Rightarrow> bool \<Rightarrow> BoundVariable" where
  "set_differentiable (BoundVariable py sl p vn acc d cd ch) v = BoundVariable py sl p vn acc v cd ch"

fun set_call_dimensionality :: "BoundVariable \<Rightarrow> int option \<Rightarrow> BoundVariable" where
  "set_call_dimensionality (BoundVariable py sl p vn acc d cd ch) v =
     BoundVariable py sl p vn acc d v ch"

fun set_python :: "BoundVariable \<Rightarrow> PythonVariable \<Rightarrow> BoundVariable" where
  "set_python (BoundVariable py sl p vn acc d cd ch) v = BoundVariable v sl p vn acc d cd ch"

fun set_children :: "BoundVariable \<Rightarrow> (string \<times> BoundVariable) list option \<Rightarrow> BoundVariable" where
  "set_children (BoundVariable py sl p vn acc d cd ch) v = BoundVariable py sl p vn acc d cd v"

fun set_vector_type :: "PythonVariable \<Rightarrow> BaseType option \<Rightarrow> PythonVariable" where
  "set_vector_type (PythonVariable n pr vt vm w d fs) v = PythonVariable n pr v vm w d fs"

fun set_vector_mapping :: "PythonVariable \<Rightarrow> Shape \<Rightarrow> PythonVariable" where
  "set_vector_mapping (PythonVariable n pr vt vm w d fs) v = PythonVariable n pr vt v w d fs"

text \<open>
  Every node of a binding tree, the node itself first and then its descendants in dict
  order. (The source's \<^verbatim>\<open>get_input_list\<close> collects the leaves only; the claims
  speak about every node.)
\<close>

fun all_nodes :: "BoundVariable \<Rightarrow> BoundVariable list" where
  "all_nodes (BoundVariable py sl p vn acc d cd ch) =
     BoundVariable py sl p vn acc d cd ch #
     (case ch of None \<Rightarrow> [] | Some cs \<Rightarrow> concat (map (\<lambda>(field, child). all_nodes child) cs))"

text \<open>Python's \<^verbatim>\<open>range(n)\<close> for an integer \<^verbatim>\<open>n\<close>: empty when \<^verbatim>\<open>n \<le> 0\<close>.\<close>

definition range_py :: "int \<Rightarrow> int list" where
  "range_py n = [0..n - 1]"

section \<open>Differentiability and the access table\<close>

text \<open>
  \<^verbatim>\<open>BoundVariable._calculate_differentiability(mode)\<close>: the nested conditionals of
  the source, branch for branch. Only \<^verbatim>\<open>self.access\<close> is assigned.
\<close>

definition priv_calculate_differentiability :: "BoundVariable \<Rightarrow> CallMode \<Rightarrow> BoundVariable" where
  "priv_calculate_differentiability self mode =
     (if mode = prim then
        (if differentiable self then
           (if io_type (slang self) = inout then set_access self (readwrite, none)
            else if io_type (slang self) = out then set_access self (write, none)
            else set_access self (read, none))
         else
           (if io_type (slang self) = inout then set_access self (readwrite, none)
            else if io_type (slang self) = out then set_access self (write, none)
            else set_access self (read, none)))
      else if mode = bwds then
        (if differentiable self then
           (if io_type (slang self) = inout then set_access self (read, readwrite)
            else if io_type (slang self) = out then set_access self (none, read)
            else set_access self (read, write))
         else
           (if io_type (slang self) = inout then set_access self (read, none)
            else if io_type (slang self) = out then set_access self (none, none)
            else set_access self (read, none)))
      else set_access self (none, none))"

text \<open>
  \<^verbatim>\<open>BoundVariable.calculate_differentiability(context)\<close>: the node's flag is set
  from the three conditions, the access pair is computed, then the children are visited in
  dict order. The node-level steps do not touch \<^verbatim>\<open>self.children\<close>.
\<close>

fun calculate_differentiability :: "BindContext \<Rightarrow> BoundVariable \<Rightarrow> BoundVariable" where
  "calculate_differentiability context (BoundVariable py sl p vn acc d cd ch) =
     set_children
       (priv_calculate_differentiability
          (set_differentiable (BoundVariable py sl p vn acc d cd ch)
             (\<not> no_diff sl \<and> derivative sl \<noteq> None \<and> py_differentiable py))
          (call_mode context))
       (map_option
          (map (\<lambda>(field, child). (field, calculate_differentiability context child))) ch)"

text \<open>
  The access table of section 4.3 of the specification, row by row, with the remark below
  the table for the forward mode.
\<close>

fun spec_access_table :: "CallMode \<Rightarrow> bool \<Rightarrow> IOType \<Rightarrow> AccessType \<times> AccessType" where
  "spec_access_table prim _ inn = (read, none)"
| "spec_access_table prim _ out = (write, none)"
| "spec_access_table prim _ inout = (readwrite, none)"
| "spec_access_table bwds True inn = (read, write)"
| "spec_access_table bwds True out = (none, read)"
| "spec_access_table bwds True inout = (read, readwrite)"
| "spec_access_table bwds False inn = (read, none)"
| "spec_access_table bwds False out = (none, none)"
| "spec_access_table bwds False inout = (read, none)"
| "spec_access_table fwds _ _ = (none, none)"

section \<open>Finalizing the vector mappings\<close>

text \<open>
  \<^verbatim>\<open>BoundVariable._finalize_mappings(context)\<close>: an unknown contribution becomes
  the call dimensionality; a node without a valid mapping gets the list built by the loop
  (\<^verbatim>\<open>m.append(context.call_dimensionality - i - 1)\<close> for \<^verbatim>\<open>i\<close> in
  \<^verbatim>\<open>range(self.call_dimensionality)\<close>), reversed.
\<close>

definition priv_finalize_mappings :: "BindContext \<Rightarrow> BoundVariable \<Rightarrow> BoundVariable" where
  "priv_finalize_mappings context self =
     (let self1 = (if call_dimensionality self = None
                   then set_call_dimensionality self (Some (ctx_call_dimensionality context))
                   else self)
      in if \<not> valid (vector_mapping (python self1)) then
           (let m = fold (\<lambda>i m. m @ [ctx_call_dimensionality context - i - 1])
                      (range_py (the (call_dimensionality self1))) []
            in set_python self1 (set_vector_mapping (python self1) (Shape_of (rev m))))
         else self1)"

text \<open>
  \<^verbatim>\<open>BoundVariable.finalize_mappings(context)\<close>: the children first, in dict order,
  then the node itself.
\<close>

fun finalize_mappings :: "BindContext \<Rightarrow> BoundVariable \<Rightarrow> BoundVariable" where
  "finalize_mappings context (BoundVariable py sl p vn acc d cd ch) =
     priv_finalize_mappings context
       (BoundVariable py sl p vn acc d cd
          (map_option (map (\<lambda>(field, child). (field, finalize_mappings context child))) ch))"

section \<open>Building the binding tree\<close>

text \<open>
  A loop over the children that stops at the first exception: the results of the children
  in dict order, or the first exception met.
\<close>

fun sequence_children :: "(string \<times> (exn + 'a)) list \<Rightarrow> exn + (string \<times> 'a) list" where
  "sequence_children [] = Inr []"
| "sequence_children ((field, Inl e) # rest) = Inl e"
| "sequence_children ((field, Inr v) # rest) =
     (case sequence_children rest of Inl e \<Rightarrow> Inl e | Inr vs \<Rightarrow> Inr ((field, v) # vs))"

text \<open>
  \<^verbatim>\<open>BoundVariable.__init__(python, slang, output_transforms, path)\<close>. The path is the
  kernel-side name, prefixed by the parent's path; access, differentiability and the
  call-dimensionality contribution get their defaults. When the host node has fields, the
  kernel node must have fields (\<^verbatim>\<open>assert slang.fields is not None\<close>) and one child is
  built for every host field, looked up by name on the kernel side
  (\<^verbatim>\<open>slang.fields[name]\<close> raises \<^verbatim>\<open>KeyError\<close> for a missing name).
\<close>

fun BoundVariable_init ::
  "PythonVariable \<Rightarrow> SlangVariable \<Rightarrow> (string \<times> int list) list option \<Rightarrow> string option
     \<Rightarrow> exn + BoundVariable" where
  "BoundVariable_init (PythonVariable n pr vt vm w df fs) sl output_transforms parent_path =
     (let py = PythonVariable n pr vt vm w df fs;
          self_path = (case parent_path of
                         None \<Rightarrow> name sl
                       | Some pp \<Rightarrow> pp @ ''.'' @ name sl)
      in case fs of
           None \<Rightarrow>
             Inr (BoundVariable py sl self_path (name sl) (none, none) False None None)
         | Some python_fields \<Rightarrow>
             (case sl_fields sl of
                None \<Rightarrow> Inl AssertionError
              | Some slang_fields \<Rightarrow>
                  (case sequence_children
                          (map (\<lambda>(field, child_python).
                                  (field,
                                   case map_of slang_fields field of
                                     None \<Rightarrow> Inl (KeyError field)
                                   | Some child_slang \<Rightarrow>
                                       BoundVariable_init child_python child_slang
                                         output_transforms (Some self_path)))
                               python_fields) of
                     Inl e \<Rightarrow> Inl e
                   | Inr cs \<Rightarrow>
                       Inr (BoundVariable py sl self_path (name sl) (none, none)
                              False None (Some cs)))))"

section \<open>Implicit vectorization\<close>

text \<open>
  The methods of the host-side type marshall (\<^verbatim>\<open>self.python.primal\<close>) that the
  binding tree calls. They are implemented per host type outside the modelled files, may
  raise, and are parameters of the model. The first argument is the receiver.
  \<^verbatim>\<open>gen_calldata\<close> writes to the code block it is given and returns it, with the
  exception it raised if it raised one.
\<close>

record type_ops =
  reduce_type :: "BaseType \<Rightarrow> int \<Rightarrow> exn + BaseType option"
  resolve_type :: "BaseType \<Rightarrow> BindContext \<Rightarrow> BaseType \<Rightarrow> exn + BaseType option"
  resolve_dimensionality :: "BaseType \<Rightarrow> BindContext \<Rightarrow> BaseType \<Rightarrow> exn + int"
  gen_calldata :: "BaseType \<Rightarrow> CodeGenBlock \<Rightarrow> BindContext \<Rightarrow> BoundVariable \<Rightarrow> CodeGenBlock \<times> exn option"

text \<open>Python's \<^verbatim>\<open>max\<close> of a non-empty sequence.\<close>

definition max_py :: "int list \<Rightarrow> int" where
  "max_py xs = fold max (tl xs) (hd xs)"

text \<open>
  \<^verbatim>\<open>BoundVariable._apply_implicit_vectorization(context)\<close>, statement by statement:
  the reduction of the type under a valid mapping, the resolution of a missing type (not
  for the path \<^verbatim>\<open>_result\<close>), the fallback to the kernel-side type, and the
  call-dimensionality contribution.
\<close>

definition priv_apply_implicit_vectorization ::
  "type_ops \<Rightarrow> BindContext \<Rightarrow> BoundVariable \<Rightarrow> exn + BoundVariable" where
  "priv_apply_implicit_vectorization ops context self =
     (case (if valid (vector_mapping (python self))
            then (case reduce_type ops (py_primal (python self))
                         (int (length (as_tuple (vector_mapping (python self))))) of
                    Inl e \<Rightarrow> Inl e
                  | Inr t \<Rightarrow> Inr (set_vector_type (python self) t))
            else Inr (python self)) of
        Inl e \<Rightarrow> Inl e
      | Inr py1 \<Rightarrow>
          (case (if vector_type py1 \<noteq> None then Inr py1
                 else if path self = ''_result'' then Inr py1
                 else (case resolve_type ops (py_primal py1) context (primal (slang self)) of
                         Inl e \<Rightarrow> Inl e
                       | Inr t \<Rightarrow> Inr (set_vector_type py1 t))) of
             Inl e \<Rightarrow> Inl e
           | Inr py2 \<Rightarrow>
               (case (if \<not> valid (vector_mapping py2) \<and> vector_type py2 = None
                      then (if path self = ''_result''
                            then Inr (set_vector_type py2 (Some (primal (slang self))))
                            else Inl AssertionError)
                      else Inr py2) of
                  Inl e \<Rightarrow> Inl e
                | Inr py3 \<Rightarrow>
                    (case (if valid (vector_mapping py3)
                           then (if length (as_tuple (vector_mapping py3)) > 0
                                 then Inr (max_py (as_tuple (vector_mapping py3)) + 1)
                                 else Inr 0)
                           else (case vector_type py3 of
                                   None \<Rightarrow> Inl AssertionError
                                 | Some vt \<Rightarrow> resolve_dimensionality ops (py_primal py3) context vt)) of
                       Inl e \<Rightarrow> Inl e
                     | Inr k \<Rightarrow> Inr (set_call_dimensionality (set_python self py3) (Some k))))))"

text \<open>
  \<^verbatim>\<open>BoundVariable.apply_implicit_vectorization(context)\<close>: the children first, in
  dict order, then the node itself; the first exception ends the walk.
\<close>

fun apply_implicit_vectorization ::
  "type_ops \<Rightarrow> BindContext \<Rightarrow> BoundVariable \<Rightarrow> exn + BoundVariable" where
  "apply_implicit_vectorization ops context (BoundVariable py sl p vn acc d cd ch) =
     (case ch of
        None \<Rightarrow> priv_apply_implicit_vectorization ops context (BoundVariable py sl p vn acc d cd None)
      | Some cs \<Rightarrow>
          (case sequence_children
                  (map (\<lambda>(field, child). (field, apply_implicit_vectorization ops context child)) cs) of
             Inl e \<Rightarrow> Inl e
           | Inr cs' \<Rightarrow>
               priv_apply_implicit_vectorization ops context
                 (BoundVariable py sl p vn acc d cd (Some cs'))))"

section \<open>Code generation for the call data\<close>

text \<open>Python's \<^verbatim>\<open>str\<close> of an integer and \<^verbatim>\<open>sep.join\<close>.\<close>

definition digit_char :: "nat \<Rightarrow> char" where
  "digit_char d = ''0123456789'' ! d"

function str_nat :: "nat \<Rightarrow> string" where
  "str_nat n = (if n < 10 then [digit_char n] else str_nat (n div 10) @ [digit_char (n mod 10)])"
  by pat_completeness auto
termination
  by (relation "measure id") auto

declare str_nat.simps [simp del]

definition str_py :: "int \<Rightarrow> string" where
  "str_py i = (if i < 0 then ''-'' @ str_nat (nat (- i)) else str_nat (nat i))"

fun join_py :: "string \<Rightarrow> string list \<Rightarrow> string" where
  "join_py sep [] = []"
| "join_py sep [x] = x"
| "join_py sep (x # y # ys) = x @ sep @ join_py sep (y # ys)"

text \<open>\<^verbatim>\<open>self.access[prim.value]\<close> and \<^verbatim>\<open>prim.name\<close>.\<close>

fun access_at :: "AccessType \<times> AccessType \<Rightarrow> PrimType \<Rightarrow> AccessType" where
  "access_at acc PrimType_primal = fst acc"
| "access_at acc PrimType_derivative = snd acc"

fun PrimType_name :: "PrimType \<Rightarrow> string" where
  "PrimType_name PrimType_primal = ''primal''"
| "PrimType_name PrimType_derivative = ''derivative''"

text \<open>
  The statement that declares the mapping of a variable:
  \<^verbatim>\<open>static const int[] _m_NAME = { 0,1 }\<close>, or \<^verbatim>\<open>static const int _m_NAME = 0\<close>
  for an empty list.
\<close>

definition mapping_statement :: "string \<Rightarrow> int list \<Rightarrow> emit" where
  "mapping_statement vn m =
     (if length m > 0
      then cgb_append_statement
             (''static const int[] _m_'' @ vn @ '' = { '' @ join_py '','' (map str_py m) @ '' }'')
      else cgb_append_statement (''static const int _m_'' @ vn @ '' = 0''))"

text \<open>
  The body of the loop \<^verbatim>\<open>for prim in PrimType\<close> of a composite node: nothing for an
  access of \<^verbatim>\<open>none\<close>, otherwise the aggregate load and store functions over
  \<^verbatim>\<open>names\<close> (field, variable name, primal type name, derivative type name).
  \<^verbatim>\<open>self.vector_type.name\<close> raises \<^verbatim>\<open>AttributeError\<close> when the vector type is
  \<^verbatim>\<open>None\<close>.
\<close>

definition gen_prim_accessors ::
  "BoundVariable \<Rightarrow> (string \<times> string \<times> string \<times> string) list \<Rightarrow> PrimType \<Rightarrow> CodeGenBlock
     \<Rightarrow> CodeGenBlock \<times> exn option" where
  "gen_prim_accessors self names pt cgb =
     (if access_at (access self) pt = none then (cgb, None)
      else
        (case vector_type (python self) of
           None \<Rightarrow>
             (cgb, Some (AttributeError
                           ([CHR 0x27] @ ''NoneType'' @ [CHR 0x27] @ '' object has no attribute ''
                            @ [CHR 0x27] @ ''name'' @ [CHR 0x27])))
         | Some vt \<Rightarrow>
             (let prim_name = PrimType_name pt;
                  prim_type_name = (if pt \<noteq> PrimType_primal
                                    then type_name vt @ ''.Differential''
                                    else type_name vt)
              in (cgb
                  @ [cgb_empty_line, cgb_empty_line,
                     cgb_append_line (''void load_'' @ prim_name @ ''(IContext context, out ''
                                        @ prim_type_name @ '' value)''),
                     cgb_begin_block]
                  @ concat (map (\<lambda>(field, vname, ptn, dtn).
                       [cgb_declare ptn field,
                        cgb_append_statement
                          (''this.'' @ vname @ ''.load_'' @ prim_name @ ''(ctx(context, _m_''
                             @ vname @ ''),'' @ field @ '')''),
                        cgb_assign (''value.'' @ field) field]) names)
                  @ [cgb_end_block, cgb_empty_line,
                     cgb_append_line (''void store_'' @ prim_name @ ''(IContext context, in ''
                                        @ prim_type_name @ '' value)''),
                     cgb_begin_block]
                  @ map (\<lambda>(field, vname, ptn, dtn).
                       cgb_append_statement
                         (''this.'' @ vname @ ''.store_'' @ prim_name @ ''(ctx(context, _m_''
                            @ vname @ ''),value.'' @ field @ '')'')) names
                  @ [cgb_end_block],
                  None))))"

fun gen_accessors ::
  "BoundVariable \<Rightarrow> (string \<times> string \<times> string \<times> string) list \<Rightarrow> PrimType list \<Rightarrow> CodeGenBlock
     \<Rightarrow> CodeGenBlock \<times> exn option" where
  "gen_accessors self names [] cgb = (cgb, None)"
| "gen_accessors self names (pt # pts) cgb =
     (case gen_prim_accessors self names pt cgb of
        (cgb', Some e) \<Rightarrow> (cgb', Some e)
      | (cgb', None) \<Rightarrow> gen_accessors self names pts cgb')"

text \<open>
  \<^verbatim>\<open>BoundVariable.gen_call_data_code(cg, context, depth)\<close>. The code generator is
  mutated in place by the source, so the model returns it in every case, also when an
  exception is raised. \<^verbatim>\<open>gen_children_code\<close> is the loop over
  \<^verbatim>\<open>self.children.items()\<close> of the composite branch, which collects \<^verbatim>\<open>names\<close>
  (the returned variable name is never \<^verbatim>\<open>None\<close>).
\<close>

fun gen_call_data_code ::
  "type_ops \<Rightarrow> BindContext \<Rightarrow> BoundVariable \<Rightarrow> nat \<Rightarrow> CodeGen \<Rightarrow> CodeGen \<times> (exn + string)"
and gen_children_code ::
  "type_ops \<Rightarrow> BindContext \<Rightarrow> (string \<times> BoundVariable) list \<Rightarrow> nat \<Rightarrow> CodeGen
     \<Rightarrow> CodeGen \<times> (exn + (string \<times> string \<times> string \<times> string) list)" where
  "gen_call_data_code ops context (BoundVariable py sl p vn acc d cd ch) depth cg =
     (let self = BoundVariable py sl p vn acc d cd ch;
          body =
            (case ch of
               Some cs \<Rightarrow>
                 (case gen_children_code ops context cs (depth + 1)
                         (cg\<lparr>call_data_structs :=
                               call_data_structs cg @ [cgb_begin_struct (''_t_'' @ vn)]\<rparr>) of
                    (cg2, Inl e) \<Rightarrow> (cg2, Some e)
                  | (cg2, Inr names) \<Rightarrow>
                      (case gen_accessors self names [PrimType_primal, PrimType_derivative]
                              (call_data_structs cg2
                               @ map (\<lambda>(field, vname, ptn, dtn).
                                        cgb_declare (''_t_'' @ vname) vname) names) of
                         (cgb3, Some e) \<Rightarrow> (cg2\<lparr>call_data_structs := cgb3\<rparr>, Some e)
                       | (cgb3, None) \<Rightarrow>
                           (cg2\<lparr>call_data_structs :=
                                   cgb3 @ [cgb_end_struct,
                                           mapping_statement vn
                                             (range_py (ctx_call_dimensionality context))]\<rparr>,
                            None)))
             | None \<Rightarrow>
                 (case (if fst acc \<in> set [write, readwrite] \<and> \<not> writable py
                        then (if depth = 0
                              then Some (ValueError ''Cannot read back value for non-writable type'')
                              else None)
                        else None) of
                    Some e \<Rightarrow> (cg, Some e)
                  | None \<Rightarrow>
                      (case gen_calldata ops (py_primal py) (call_data_structs cg) context self of
                         (cgb1, Some e) \<Rightarrow> (cg\<lparr>call_data_structs := cgb1\<rparr>, Some e)
                       | (cgb1, None) \<Rightarrow>
                           (cg\<lparr>call_data_structs :=
                                  cgb1 @ [mapping_statement vn (as_tuple (vector_mapping py))]\<rparr>,
                            None))))
      in case body of
           (cg', Some e) \<Rightarrow> (cg', Inl e)
         | (cg', None) \<Rightarrow>
             ((if depth = 0
               then cg'\<lparr>call_data := call_data cg' @ [cgb_declare (''_t_'' @ vn) vn]\<rparr>
               else cg'),
              Inr vn))"
| "gen_children_code ops context [] depth cg = (cg, Inr [])"
| "gen_children_code ops context ((field, variable) # rest) depth cg =
     (case gen_call_data_code ops context variable depth cg of
        (cg', Inl e) \<Rightarrow> (cg', Inl e)
      | (cg', Inr vname) \<Rightarrow>
          (case gen_children_code ops context rest depth cg' of
             (cg'', Inl e) \<Rightarrow> (cg'', Inl e)
           | (cg'', Inr names) \<Rightarrow>
               (cg'',
                Inr ((field, vname, primal_type_name (slang variable),
                      derivative_type_name (slang variable)) # names))))"

section \<open>The bound call\<close>

text \<open>
  \<^verbatim>\<open>BoundCall\<close>: the positional and the keyword bindings of one call, with its
  methods \<^verbatim>\<open>values\<close>, \<^verbatim>\<open>apply_implicit_vectorization\<close> and
  \<^verbatim>\<open>finalize_mappings\<close> (the positional arguments first, then the keyword ones).
\<close>

record BoundCall =
  bc_args :: "BoundVariable list"
  bc_kwargs :: "(string \<times> BoundVariable) list"

definition BoundCall_values :: "BoundCall \<Rightarrow> BoundVariable list" where
  "BoundCall_values bc = bc_args bc @ map snd (bc_kwargs bc)"

definition BoundCall_apply_implicit_vectorization ::
  "type_ops \<Rightarrow> BindContext \<Rightarrow> BoundCall \<Rightarrow> exn + BoundCall" where
  "BoundCall_apply_implicit_vectorization ops context bc =
     (case sequence_children
             (map (\<lambda>arg. ([], apply_implicit_vectorization ops context arg)) (bc_args bc)) of
        Inl e \<Rightarrow> Inl e
      | Inr as \<Rightarrow>
          (case sequence_children
                  (map (\<lambda>(k, arg). (k, apply_implicit_vectorization ops context arg))
                     (bc_kwargs bc)) of
             Inl e \<Rightarrow> Inl e
           | Inr kws \<Rightarrow> Inr \<lparr>bc_args = map snd as, bc_kwargs = kws\<rparr>))"

definition BoundCall_finalize_mappings :: "BindContext \<Rightarrow> BoundCall \<Rightarrow> BoundCall" where
  "BoundCall_finalize_mappings context bc =
     \<lparr>bc_args = map (finalize_mappings context) (bc_args bc),
      bc_kwargs = map (\<lambda>(k, arg). (k, finalize_mappings context arg)) (bc_kwargs bc)\<rparr>"

section \<open>Building the call data\<close>

text \<open>
  Host values as far as the modelled code looks at them: an opaque object with the name of
  its type and its data, an object that offers \<^verbatim>\<open>get_this\<close> (with the value it
  returns), a dict and a list.
\<close>

datatype pyval =
    PyObj string string
  | PyThis pyval
  | PyDict "(string \<times> pyval) list"
  | PyList "pyval list"

text \<open>
  \<^verbatim>\<open>unpack_arg\<close>: one \<^verbatim>\<open>get_this\<close>, then the values of a dict or the elements
  of a list, recursively.
\<close>

fun unpack_arg :: "pyval \<Rightarrow> pyval" where
  "unpack_arg (PyObj t d) = PyObj t d"
| "unpack_arg (PyDict kvs) = PyDict (map (\<lambda>(k, v). (k, unpack_arg v)) kvs)"
| "unpack_arg (PyList vs) = PyList (map unpack_arg vs)"
| "unpack_arg (PyThis (PyDict kvs)) = PyDict (map (\<lambda>(k, v). (k, unpack_arg v)) kvs)"
| "unpack_arg (PyThis (PyList vs)) = PyList (map unpack_arg vs)"
| "unpack_arg (PyThis (PyObj t d)) = PyObj t d"
| "unpack_arg (PyThis (PyThis v)) = PyThis v"

text \<open>
  The function chain, as \<^verbatim>\<open>function.py\<close> defines it. Every node but the
  \<^verbatim>\<open>Function\<close> at the root has a parent. A \<^verbatim>\<open>FunctionChainSet\<close> holds its
  properties or its callback (modelled by what the callback returns or raises when
  called); a \<^verbatim>\<open>Function\<close> is known by the names of its module and of the kernel
  function. These six classes are the only chain classes of the module: it defines no
  \<^verbatim>\<open>FunctionChainHook\<close>, \<^verbatim>\<open>FunctionChainReturnType\<close> or
  \<^verbatim>\<open>FunctionChainMap\<close>, so no item of a chain is an instance of one of them.
\<close>

datatype chain_kind =
    Function string string
  | FunctionChainSet "(string \<times> pyval) list option" "(exn + (string \<times> pyval) list) option"
  | FunctionChainInputTransform "(string \<times> int list) list"
  | FunctionChainOutputTransform "(string \<times> int list) list"
  | FunctionChainThis pyval
  | FunctionChainBwdsDiff

datatype FunctionChainBase = FunctionChainBase (kind: chain_kind) (parent: "FunctionChainBase option")

text \<open>
  The names that the module \<^verbatim>\<open>kernelfunctions.function\<close> binds when it is loaded:
  what it imports (the two imports under \<^verbatim>\<open>TYPE_CHECKING\<close> are not executed), its
  two globals, \<^verbatim>\<open>_cache_value_to_id\<close> and its classes.
\<close>

definition function_module_names :: "string list" where
  "function_module_names =
     [''Any'', ''Callable'', ''Optional'', ''Protocol'', ''TYPE_CHECKING'', ''SlangFunction'',
      ''SlangModule'', ''DeclReflection'', ''TypeReflection'', ''FunctionReflection'',
      ''slangpynative'', ''TConcreteShape'', ''PYTHON_SIGNATURES'', ''ENABLE_CALLDATA_CACHE'',
      ''CALL_DATA_CACHE'', ''_cache_value_to_id'', ''IThis'', ''FunctionChainBase'',
      ''FunctionChainSet'', ''FunctionChainInputTransform'', ''FunctionChainOutputTransform'',
      ''FunctionChainThis'', ''FunctionChainBwdsDiff'', ''Function'']"

text \<open>
  \<^verbatim>\<open>from module import (a, b, ...)\<close>: the names are taken in their order, and the
  first one that the module does not bind raises \<^verbatim>\<open>ImportError\<close>.
\<close>

definition import_from :: "string list \<Rightarrow> string list \<Rightarrow> exn + unit" where
  "import_from module_names wanted =
     (case filter (\<lambda>n. n \<notin> set module_names) wanted of
        [] \<Rightarrow> Inr ()
      | n # ns \<Rightarrow> Inl (ImportError n))"

text \<open>
  The attributes of a \<^verbatim>\<open>Function\<close> object: those that
  \<^verbatim>\<open>FunctionChainBase.__init__\<close> and \<^verbatim>\<open>Function.__init__\<close> assign. Reading any
  other attribute raises \<^verbatim>\<open>AttributeError\<close>; this is so for \<^verbatim>\<open>options\<close>,
  \<^verbatim>\<open>reflections\<close> and \<^verbatim>\<open>type_reflection\<close>, which \<^verbatim>\<open>CallData.__init__\<close>
  reads. The value of an attribute is opaque.
\<close>

definition Function_attributes :: "string list" where
  "Function_attributes =
     [''parent'', ''slangpy_signature'', ''module'', ''name'', ''type_parent'', ''overloads'']"

definition getattr_Function :: "FunctionChainBase \<Rightarrow> string \<Rightarrow> exn + pyval" where
  "getattr_Function f a =
     (if a \<in> set Function_attributes then Inr (PyObj ''attribute'' a)
      else Inl (AttributeError
                  ([CHR 0x27] @ ''Function'' @ [CHR 0x27] @ '' object has no attribute ''
                   @ [CHR 0x27] @ a @ [CHR 0x27])))"

record PythonFunctionCall =
  pc_args :: "PythonVariable list"
  pc_kwargs :: "(string \<times> PythonVariable) list"

record SlangFunction =
  sf_name :: string
  sf_differentiable :: bool
  return_type_full_name :: string
  sf_reflection :: string

record CallData =
  cd_call_mode :: CallMode
  cd_vars :: "(string \<times> pyval) list"
  cd_call_dimensionality :: int
  cd_kernel :: string
  cd_bindings :: BoundCall

text \<open>
  The phases of \<^verbatim>\<open>kernelfunctions.callsignature\<close>, the constructors of
  \<^verbatim>\<open>PythonFunctionCall\<close> and \<^verbatim>\<open>PythonVariable\<close>, the logging helpers, the shader
  file and the device are outside the modelled files: they are parameters. Each phase may
  raise; the logging helpers return a text. The phases that work on the bindings mutate
  host-side variables that the Python call shares with them, so they take and return both.
  \<^verbatim>\<open>cs_specialize\<close> returns the reason of a \<^verbatim>\<open>MismatchReason\<close> or the chosen
  overload. \<^verbatim>\<open>cs_generate_code\<close> stands for \<^verbatim>\<open>generate_code\<close> followed by
  \<^verbatim>\<open>codegen.finish\<close>, \<^verbatim>\<open>write_shader\<close> for the writing of the shader file (its
  name, its text) and \<^verbatim>\<open>build_kernel\<close> for loading, linking and creating the compute
  kernel.
\<close>

record pipeline =
  new_PythonFunctionCall ::
    "BindContext \<Rightarrow> pyval list \<Rightarrow> (string \<times> pyval) list \<Rightarrow> exn + PythonFunctionCall"
  cs_apply_explicit_vectorization ::
    "BindContext \<Rightarrow> PythonFunctionCall \<Rightarrow> pyval list \<Rightarrow> (string \<times> pyval) list
       \<Rightarrow> exn + PythonFunctionCall"
  cs_specialize ::
    "BindContext \<Rightarrow> PythonFunctionCall \<Rightarrow> pyval \<Rightarrow> pyval \<Rightarrow> exn + (string + SlangFunction)"
  new_PythonVariable :: "BindContext \<Rightarrow> string \<Rightarrow> exn + PythonVariable"
  cs_bind :: "BindContext \<Rightarrow> PythonFunctionCall \<Rightarrow> SlangFunction \<Rightarrow> exn + BoundCall"
  cs_apply_implicit_vectorization ::
    "BindContext \<Rightarrow> PythonFunctionCall \<times> BoundCall \<Rightarrow> exn + PythonFunctionCall \<times> BoundCall"
  has_implicit_args :: "PythonFunctionCall \<Rightarrow> bool"
  cs_calculate_call_dimensionality :: "BoundCall \<Rightarrow> exn + int"
  cs_create_return_value_binding ::
    "BindContext \<Rightarrow> PythonFunctionCall \<times> BoundCall \<Rightarrow> string option
       \<Rightarrow> exn + PythonFunctionCall \<times> BoundCall"
  cs_finalize_mappings ::
    "BindContext \<Rightarrow> PythonFunctionCall \<times> BoundCall \<Rightarrow> exn + PythonFunctionCall \<times> BoundCall"
  has_implicit_mappings :: "PythonFunctionCall \<Rightarrow> bool"
  cs_validate_specialize :: "BindContext \<Rightarrow> PythonFunctionCall \<Rightarrow> SlangFunction \<Rightarrow> exn + unit"
  cs_calculate_differentiability ::
    "BindContext \<Rightarrow> PythonFunctionCall \<times> BoundCall \<Rightarrow> exn + PythonFunctionCall \<times> BoundCall"
  cs_generate_code :: "BindContext \<Rightarrow> FunctionChainBase \<Rightarrow> BoundCall \<Rightarrow> exn + string"
  write_shader :: "string \<Rightarrow> string \<Rightarrow> exn + unit"
  build_kernel :: "FunctionChainBase \<Rightarrow> string \<Rightarrow> exn + string"
  mismatch_info :: "PythonFunctionCall \<Rightarrow> pyval \<Rightarrow> string"
  python_exception_info ::
    "PythonFunctionCall option \<Rightarrow> pyval \<Rightarrow> PythonVariable option \<Rightarrow> string"
  bound_exception_info :: "BoundCall option \<Rightarrow> string \<Rightarrow> BoundVariable option \<Rightarrow> string"
  bound_call_table :: "BoundCall \<Rightarrow> string"

text \<open>
  What one construction of a \<^verbatim>\<open>CallData\<close> does that can be seen from outside, in
  order: the import at the head of the \<^verbatim>\<open>try\<close> block, then the calls made on the
  collaborators. \<^verbatim>\<open>ev_PythonVariable n\<close> is the construction of a synthetic
  host-side node named \<^verbatim>\<open>n\<close>.
\<close>

datatype event =
    ev_import
  | ev_PythonFunctionCall
  | ev_apply_explicit_vectorization
  | ev_specialize
  | ev_PythonVariable string
  | ev_bind
  | ev_apply_implicit_vectorization
  | ev_calculate_call_dimensionality
  | ev_create_return_value_binding
  | ev_finalize_mappings
  | ev_validate_specialize
  | ev_calculate_differentiability
  | ev_generate_code
  | ev_write_shader
  | ev_build_kernel

text \<open>
  The local variables of \<^verbatim>\<open>CallData.__init__\<close> that its exception handlers read.
  A local variable is unassigned until the statement that assigns it has run; reading it
  before raises \<^verbatim>\<open>UnboundLocalError\<close>. \<^verbatim>\<open>slang_function\<close> holds what
  \<^verbatim>\<open>specialize\<close> returned.
\<close>

datatype 'a local_var = Unassigned | Assigned 'a

record locals =
  l_bindings :: "BoundCall option local_var"
  l_python_call :: "PythonFunctionCall option local_var"
  l_function :: "FunctionChainBase local_var"
  l_slang_function :: "(string + SlangFunction) local_var"

definition read_local :: "string \<Rightarrow> 'a local_var \<Rightarrow> exn + 'a" where
  "read_local n v = (case v of Unassigned \<Rightarrow> Inl (UnboundLocalError n) | Assigned x \<Rightarrow> Inr x)"

text \<open>
  One step inside the \<^verbatim>\<open>try\<close> block: what it lets see is recorded; an exception ends
  the block, with the local variables as they are at that point.
\<close>

definition try_step ::
  "event list \<Rightarrow> locals \<Rightarrow> exn + 'a \<Rightarrow> ('a \<Rightarrow> event list \<times> ((exn \<times> locals) + 'b))
     \<Rightarrow> event list \<times> ((exn \<times> locals) + 'b)" where
  "try_step evs L r k =
     (case r of
        Inl e \<Rightarrow> (evs, Inl (e, L))
      | Inr x \<Rightarrow> (case k x of (tr, res) \<Rightarrow> (evs @ tr, res)))"

text \<open>
  The settings collected from the chain by the loop over its items. The return type and
  the two mappings keep their initial values, and no hook is added: the items that would
  set them are instances of classes that do not exist.
\<close>

record chain_cfg =
  cfg_sets :: "(string \<times> pyval) list"
  cfg_output_transforms :: "(string \<times> int list) list"
  cfg_call_mode :: CallMode
  cfg_return_type :: "string option"
  cfg_positional_mapping :: "pyval list"
  cfg_keyword_mapping :: "(string \<times> pyval) list"

text \<open>\<^verbatim>\<open>d.update(other)\<close> on insertion-ordered dicts.\<close>

definition dict_update :: "('k \<times> 'v) list \<Rightarrow> ('k \<times> 'v) list \<Rightarrow> ('k \<times> 'v) list" where
  "dict_update d other = fold (\<lambda>(k, v) acc. AList.update k v acc) other d"

text \<open>The body of \<^verbatim>\<open>for item in chain\<close>.\<close>

fun chain_item :: "chain_kind \<Rightarrow> chain_cfg \<Rightarrow> exn + chain_cfg" where
  "chain_item (FunctionChainSet (Some props) cb) cfg =
     Inr (cfg\<lparr>cfg_sets := dict_update (cfg_sets cfg) props\<rparr>)"
| "chain_item (FunctionChainSet None (Some (Inr props))) cfg =
     Inr (cfg\<lparr>cfg_sets := dict_update (cfg_sets cfg) props\<rparr>)"
| "chain_item (FunctionChainSet None (Some (Inl e))) cfg = Inl e"
| "chain_item (FunctionChainSet None None) cfg =
     Inl (KernelGenException ''FunctionChainSet must have either a props or callback'')"
| "chain_item (FunctionChainOutputTransform transforms) cfg =
     Inr (cfg\<lparr>cfg_output_transforms := dict_update (cfg_output_transforms cfg) transforms\<rparr>)"
| "chain_item FunctionChainBwdsDiff cfg = Inr (cfg\<lparr>cfg_call_mode := bwds\<rparr>)"
| "chain_item (Function mn fnm) cfg = Inr cfg"
| "chain_item (FunctionChainInputTransform transforms) cfg = Inr cfg"
| "chain_item (FunctionChainThis this) cfg = Inr cfg"

fun chain_items :: "FunctionChainBase list \<Rightarrow> chain_cfg \<Rightarrow> exn + chain_cfg" where
  "chain_items [] cfg = Inr cfg"
| "chain_items (item # rest) cfg =
     (case chain_item (kind item) cfg of Inl e \<Rightarrow> Inl e | Inr cfg' \<Rightarrow> chain_items rest cfg')"

definition initial_cfg :: chain_cfg where
  "initial_cfg =
     \<lparr>cfg_sets = [], cfg_output_transforms = [], cfg_call_mode = prim, cfg_return_type = None,
      cfg_positional_mapping = [], cfg_keyword_mapping = []\<rparr>"

text \<open>A line feed, and the name of the shader file written for debugging.\<close>

definition nl :: string where
  "nl = [CHR 0x0A]"

definition shader_file_name :: "string \<Rightarrow> string \<Rightarrow> CallMode \<Rightarrow> string" where
  "shader_file_name mn fnm mode =
     ''.temp/'' @ mn @ ''_''
       @ map (\<lambda>c. if c \<in> set ''<>, '' then CHR ''_'' else c) fnm
       @ (if mode = bwds then ''_backwards'' else []) @ ''.slang''"

text \<open>
  The last part of the \<^verbatim>\<open>try\<close> block, from the binding on: binding, implicit
  vectorization, call dimensionality, return value binding, final mappings, validation,
  differentiability, code generation, the shader file and the kernel, with the two
  assertions on the Python call in between. \<^verbatim>\<open>bindings\<close> is assigned when
  \<^verbatim>\<open>bind\<close> returns.
\<close>

definition CallData_generate ::
  "pipeline \<Rightarrow> FunctionChainBase \<Rightarrow> string \<Rightarrow> string \<Rightarrow> chain_cfg \<Rightarrow> BindContext \<Rightarrow> SlangFunction
     \<Rightarrow> locals \<Rightarrow> PythonFunctionCall \<Rightarrow> event list \<times> ((exn \<times> locals) + CallData)" where
  "CallData_generate pl f mn fnm cfg context0 slang_function L python_call0 =
     try_step [ev_bind] L (cs_bind pl context0 python_call0 slang_function)
       (\<lambda>bindings0.
        let L1 = L\<lparr>l_bindings := Assigned (Some bindings0)\<rparr>
        in try_step [ev_apply_implicit_vectorization] L1
             (cs_apply_implicit_vectorization pl context0 (python_call0, bindings0))
             (\<lambda>(python_call1, bindings1).
              let L2 = L1\<lparr>l_bindings := Assigned (Some bindings1),
                           l_python_call := Assigned (Some python_call1)\<rparr>
              in if has_implicit_args pl python_call1 then ([], Inl (AssertionError, L2))
                 else
                   try_step [ev_calculate_call_dimensionality] L2
                     (cs_calculate_call_dimensionality pl bindings1)
                     (\<lambda>call_dim.
                      let context1 = context0\<lparr>ctx_call_dimensionality := call_dim\<rparr>
                      in try_step [ev_create_return_value_binding] L2
                           (cs_create_return_value_binding pl context1 (python_call1, bindings1)
                              (cfg_return_type cfg))
                           (\<lambda>(python_call2, bindings2).
                            let L3 = L2\<lparr>l_bindings := Assigned (Some bindings2),
                                         l_python_call := Assigned (Some python_call2)\<rparr>
                            in try_step [ev_finalize_mappings] L3
                                 (cs_finalize_mappings pl context1 (python_call2, bindings2))
                                 (\<lambda>(python_call3, bindings3).
                                  let L4 = L3\<lparr>l_bindings := Assigned (Some bindings3),
                                               l_python_call := Assigned (Some python_call3)\<rparr>
                                  in if has_implicit_mappings pl python_call3
                                     then ([], Inl (AssertionError, L4))
                                     else
                                       try_step [ev_validate_specialize] L4
                                         (cs_validate_specialize pl context1 python_call3
                                            slang_function)
                                         (\<lambda>u.
                                          try_step [ev_calculate_differentiability] L4
                                            (cs_calculate_differentiability pl context1
                                               (python_call3, bindings3))
                                            (\<lambda>(python_call4, bindings4).
                                             let L5 = L4\<lparr>l_bindings := Assigned (Some bindings4),
                                                          l_python_call :=
                                                            Assigned (Some python_call4)\<rparr>
                                             in try_step [ev_generate_code] L5
                                                  (cs_generate_code pl context1 f bindings4)
                                                  (\<lambda>code.
                                                   try_step [ev_write_shader] L5
                                                     (write_shader pl
                                                        (shader_file_name mn fnm (cfg_call_mode cfg))
                                                        (''/*'' @ nl @ bound_call_table pl bindings4
                                                           @ nl @ ''*/'' @ nl @ code))
                                                     (\<lambda>u.
                                                      try_step [ev_build_kernel] L5
                                                        (build_kernel pl f code)
                                                        (\<lambda>kernel.
                                                         ([], Inr \<lparr>cd_call_mode = cfg_call_mode cfg,
                                                                   cd_vars = cfg_sets cfg,
                                                                   cd_call_dimensionality = call_dim,
                                                                   cd_kernel = kernel,
                                                                   cd_bindings = bindings4\<rparr>)))))))))))"

text \<open>
  The middle part of the \<^verbatim>\<open>try\<close> block, once the Python call exists: the explicit
  vectorization; the specialization, for which \<^verbatim>\<open>function.reflections\<close> and
  \<^verbatim>\<open>function.type_reflection\<close> are read; the \<^verbatim>\<open>KernelGenException\<close> for a
  \<^verbatim>\<open>MismatchReason\<close>; the check for a differentiability error (an overload that is
  not differentiable, in a mode other than \<^verbatim>\<open>prim\<close>); and the injection of the dummy
  node \<^verbatim>\<open>_result\<close> into the keyword arguments of the Python call (in the mode
  \<^verbatim>\<open>prim\<close>, when the caller passed no \<^verbatim>\<open>_result\<close> and the return type is not
  \<^verbatim>\<open>void\<close>). The messages of the two exceptions read \<^verbatim>\<open>function.reflections\<close>
  again.
\<close>

definition CallData_specialize ::
  "pipeline \<Rightarrow> FunctionChainBase \<Rightarrow> string \<Rightarrow> string \<Rightarrow> chain_cfg \<Rightarrow> BindContext
     \<Rightarrow> (string \<times> pyval) list \<Rightarrow> locals \<Rightarrow> PythonFunctionCall
     \<Rightarrow> event list \<times> ((exn \<times> locals) + CallData)" where
  "CallData_specialize pl f mn fnm cfg context kwargs L python_call0 =
     try_step [ev_apply_explicit_vectorization] L
       (cs_apply_explicit_vectorization pl context python_call0
          (cfg_positional_mapping cfg) (cfg_keyword_mapping cfg))
       (\<lambda>python_call.
        let L1 = L\<lparr>l_python_call := Assigned (Some python_call)\<rparr>
        in try_step [] L1 (getattr_Function f ''reflections'')
             (\<lambda>reflections.
              try_step [] L1 (getattr_Function f ''type_reflection'')
                (\<lambda>type_reflection.
                 try_step [ev_specialize] L1
                   (cs_specialize pl context python_call reflections type_reflection)
                   (\<lambda>r.
                    let L2 = L1\<lparr>l_slang_function := Assigned r\<rparr>
                    in case r of
                         Inl reason \<Rightarrow>
                           try_step [] L2 (getattr_Function f ''reflections'')
                             (\<lambda>refl.
                              ([], Inl (KernelGenException
                                          (''Function signature mismatch: '' @ reason @ nl @ nl
                                           @ mismatch_info pl python_call refl @ nl),
                                        L2)))
                       | Inr slang_function \<Rightarrow>
                           if \<not> sf_differentiable slang_function \<and> cfg_call_mode cfg \<noteq> prim
                           then
                             try_step [] L2 (getattr_Function f ''reflections'')
                               (\<lambda>refl.
                                ([], Inl (KernelGenException
                                            (''Could not call function '' @ [CHR 0x27]
                                             @ ''polynomial'' @ [CHR 0x27]
                                             @ '': Function is not differentiable'' @ nl @ nl
                                             @ mismatch_info pl python_call refl @ nl),
                                          L2)))
                           else if cfg_call_mode cfg = prim \<and> ''_result'' \<notin> fst ` set kwargs
                                   \<and> return_type_full_name slang_function \<noteq> ''void''
                           then
                             try_step [ev_PythonVariable ''_result''] L2
                               (new_PythonVariable pl context ''_result'')
                               (\<lambda>rvalnode.
                                let python_call' =
                                      python_call\<lparr>pc_kwargs :=
                                        AList.update ''_result'' rvalnode (pc_kwargs python_call)\<rparr>
                                in CallData_generate pl f mn fnm cfg context slang_function
                                     (L2\<lparr>l_python_call := Assigned (Some python_call')\<rparr>)
                                     python_call')
                           else
                             CallData_generate pl f mn fnm cfg context slang_function L2
                               python_call))))"

text \<open>
  The \<^verbatim>\<open>try\<close> block of \<^verbatim>\<open>CallData.__init__(chain, *args, **kwargs)\<close> from its
  first statement: the import of seven names from \<^verbatim>\<open>kernelfunctions.function\<close>; the
  assignment of \<^verbatim>\<open>None\<close> to \<^verbatim>\<open>bindings\<close> and \<^verbatim>\<open>python_call\<close>; the check of
  the head of the chain, which is then assigned to \<^verbatim>\<open>function\<close>; the loop over the
  chain; the unpacking of the arguments; the bind context, for which
  \<^verbatim>\<open>function.options\<close> is read; and the Python call. The constructors of the program
  layout and of the bind context, and \<^verbatim>\<open>get_this\<close>, are taken to return; the call
  dimensionality of a new context is 0 until it is assigned.
\<close>

definition imported_names :: "string list" where
  "imported_names =
     [''Function'', ''FunctionChainBwdsDiff'', ''FunctionChainOutputTransform'',
      ''FunctionChainSet'', ''FunctionChainHook'', ''FunctionChainReturnType'',
      ''FunctionChainMap'']"

definition unassigned_locals :: locals where
  "unassigned_locals =
     \<lparr>l_bindings = Unassigned, l_python_call = Unassigned, l_function = Unassigned,
      l_slang_function = Unassigned\<rparr>"

definition CallData_try ::
  "pipeline \<Rightarrow> FunctionChainBase list \<Rightarrow> pyval list \<Rightarrow> (string \<times> pyval) list
     \<Rightarrow> event list \<times> ((exn \<times> locals) + CallData)" where
  "CallData_try pl chain args kwargs =
     try_step [ev_import] unassigned_locals (import_from function_module_names imported_names)
       (\<lambda>u.
        let L1 = unassigned_locals\<lparr>l_bindings := Assigned None, l_python_call := Assigned None\<rparr>
        in case chain of
             [] \<Rightarrow> ([], Inl (IndexError, L1))
           | first # others \<Rightarrow>
               (case kind first of
                  Function mn fnm \<Rightarrow>
                    (let L2 = L1\<lparr>l_function := Assigned first\<rparr>
                     in try_step [] L2 (chain_items chain initial_cfg)
                          (\<lambda>cfg.
                           let unpacked_args = map unpack_arg args;
                               unpacked_kwargs = map (\<lambda>(k, v). (k, unpack_arg v)) kwargs
                           in try_step [] L2 (getattr_Function first ''options'')
                                (\<lambda>options.
                                 let context = \<lparr>call_mode = cfg_call_mode cfg,
                                                ctx_call_dimensionality = 0\<rparr>
                                 in try_step [ev_PythonFunctionCall] L2
                                      (new_PythonFunctionCall pl context unpacked_args
                                         unpacked_kwargs)
                                      (\<lambda>python_call.
                                       CallData_specialize pl first mn fnm cfg context kwargs
                                         (L2\<lparr>l_python_call := Assigned (Some python_call)\<rparr>)
                                         python_call))))
                | _ \<Rightarrow>
                    ([], Inl (KernelGenException ''First entry in chain should be a function'',
                              L1))))"

text \<open>
  The \<^verbatim>\<open>except\<close> clauses, in their order. Each message is built from the exception
  and from a table made by a logging helper, whose arguments are read from the local
  variables first: \<^verbatim>\<open>python_call\<close> and \<^verbatim>\<open>function.reflections\<close>, or
  \<^verbatim>\<open>bindings\<close> and \<^verbatim>\<open>slang_function.reflection\<close>. An exception raised while
  these are read (a local variable that is not assigned, an attribute that does not exist)
  is the one that leaves the constructor. An exception that is none of the four named
  kinds, with both \<^verbatim>\<open>bindings\<close> and \<^verbatim>\<open>python_call\<close> still \<^verbatim>\<open>None\<close>, is raised
  again as it is.
\<close>

fun exn_str :: "exn \<Rightarrow> string" where
  "exn_str (ValueError m) = m"
| "exn_str AssertionError = []"
| "exn_str IndexError = ''list index out of range''"
| "exn_str (KeyError k) = [CHR 0x27] @ k @ [CHR 0x27]"
| "exn_str (AttributeError m) = m"
| "exn_str (ImportError n) =
     ''cannot import name '' @ [CHR 0x27] @ n @ [CHR 0x27] @ '' from ''
       @ [CHR 0x27] @ ''kernelfunctions.function'' @ [CHR 0x27]"
| "exn_str (UnboundLocalError n) =
     ''cannot access local variable '' @ [CHR 0x27] @ n @ [CHR 0x27]
       @ '' where it is not associated with a value''"
| "exn_str (KernelGenException m) = m"
| "exn_str (PythonVariableException m v) = m"
| "exn_str (BoundVariableException m v) = m"
| "exn_str (SlangCompileError m) = m"
| "exn_str (OtherException m) = m"

definition python_info_error ::
  "pipeline \<Rightarrow> locals \<Rightarrow> PythonVariable option \<Rightarrow> string \<Rightarrow> exn" where
  "python_info_error pl L variable text =
     (case read_local ''python_call'' (l_python_call L) of
        Inl u \<Rightarrow> u
      | Inr python_call \<Rightarrow>
          (case read_local ''function'' (l_function L) of
             Inl u \<Rightarrow> u
           | Inr f \<Rightarrow>
               (case getattr_Function f ''reflections'' of
                  Inl a \<Rightarrow> a
                | Inr reflections \<Rightarrow>
                    ValueError (text @ python_exception_info pl python_call reflections variable
                                @ nl))))"

definition bound_info_error ::
  "pipeline \<Rightarrow> locals \<Rightarrow> BoundVariable option \<Rightarrow> string \<Rightarrow> exn" where
  "bound_info_error pl L variable text =
     (case read_local ''bindings'' (l_bindings L) of
        Inl u \<Rightarrow> u
      | Inr bindings \<Rightarrow>
          (case read_local ''slang_function'' (l_slang_function L) of
             Inl u \<Rightarrow> u
           | Inr (Inl reason) \<Rightarrow>
               AttributeError
                 ([CHR 0x27] @ ''MismatchReason'' @ [CHR 0x27] @ '' object has no attribute ''
                  @ [CHR 0x27] @ ''reflection'' @ [CHR 0x27])
           | Inr (Inr slang_function) \<Rightarrow>
               ValueError (text @ bound_exception_info pl bindings (sf_reflection slang_function)
                                    variable
                           @ nl)))"

fun CallData_except :: "pipeline \<Rightarrow> exn \<Rightarrow> locals \<Rightarrow> exn" where
  "CallData_except pl (PythonVariableException m v) L =
     python_info_error pl L (Some v) (m @ nl @ nl)"
| "CallData_except pl (BoundVariableException m v) L =
     bound_info_error pl L (Some v) (m @ nl @ nl)"
| "CallData_except pl (SlangCompileError m) L =
     bound_info_error pl L None
       (''Slang compilation error: '' @ m @ nl @ ''. See .temp directory for generated shader.''
        @ nl
        @ ''This most commonly occurs as a result of an invalid explicit type cast, ''
        @ ''or bug in implicit casting logic.'' @ nl)"
| "CallData_except pl (KernelGenException m) L =
     (case read_local ''bindings'' (l_bindings L) of
        Inl u \<Rightarrow> u
      | Inr None \<Rightarrow>
          python_info_error pl L None (''Exception in kernel generation: '' @ m @ nl @ ''.'')
      | Inr (Some b) \<Rightarrow>
          bound_info_error pl L None (''Exception in kernel generation: '' @ m @ nl @ ''.''))"
| "CallData_except pl e L =
     (case read_local ''bindings'' (l_bindings L) of
        Inl u \<Rightarrow> u
      | Inr (Some b) \<Rightarrow>
          bound_info_error pl L None
            (''Exception in kernel generation: '' @ exn_str e @ nl @ ''.'')
      | Inr None \<Rightarrow>
          (case read_local ''python_call'' (l_python_call L) of
             Inl u \<Rightarrow> u
           | Inr (Some pc) \<Rightarrow>
               python_info_error pl L None
                 (''Exception in kernel generation: '' @ exn_str e @ nl @ ''.'')
           | Inr None \<Rightarrow> e))"

text \<open>
  \<^verbatim>\<open>CallData.__init__(chain, *args, **kwargs)\<close>: what the construction lets see, and
  the exception raised or the call data built.
\<close>

definition CallData_init ::
  "pipeline \<Rightarrow> FunctionChainBase list \<Rightarrow> pyval list \<Rightarrow> (string \<times> pyval) list
     \<Rightarrow> event list \<times> (exn + CallData)" where
  "CallData_init pl chain args kwargs =
     (case CallData_try pl chain args kwargs of
        (tr, Inl (e, L)) \<Rightarrow> (tr, Inl (CallData_except pl e L))
      | (tr, Inr res) \<Rightarrow> (tr, Inr res))"

section \<open>The call cache\<close>

text \<open>
  The native \<^verbatim>\<open>hash_signature\<close> and the registry \<^verbatim>\<open>PYTHON_SIGNATURES\<close> (by the
  name of the type of a value; an entry may be \<^verbatim>\<open>None\<close>) are outside the modelled
  files and are parameters. \<^verbatim>\<open>hash_signature\<close> gets \<^verbatim>\<open>_cache_value_to_id\<close> as
  its callback.
\<close>

record native =
  hash_signature ::
    "(pyval \<Rightarrow> exn + string) \<Rightarrow> FunctionChainBase \<Rightarrow> pyval option \<Rightarrow> pyval list
       \<Rightarrow> (string \<times> pyval) list \<Rightarrow> exn + string"
  PYTHON_SIGNATURES :: "string \<Rightarrow> (pyval \<Rightarrow> string) option option"

fun py_type :: "pyval \<Rightarrow> string" where
  "py_type (PyObj t d) = t"
| "py_type (PyThis v) = ''IThis''"
| "py_type (PyDict kvs) = ''dict''"
| "py_type (PyList vs) = ''list''"

definition cache_value_to_id ::
  "(string \<Rightarrow> (pyval \<Rightarrow> string) option option) \<Rightarrow> pyval \<Rightarrow> exn + string" where
  "cache_value_to_id signatures val =
     (case signatures (py_type val) of
        None \<Rightarrow> Inl (KeyError (py_type val))
      | Some None \<Rightarrow> Inr []
      | Some (Some cb) \<Rightarrow> Inr (cb val))"

definition ENABLE_CALLDATA_CACHE :: bool where
  "ENABLE_CALLDATA_CACHE = True"

text \<open>The two walks along \<^verbatim>\<open>current.parent\<close> of \<^verbatim>\<open>_build_call_data\<close>.\<close>

fun find_this :: "FunctionChainBase \<Rightarrow> pyval option" where
  "find_this (FunctionChainBase k p) =
     (case k of
        FunctionChainThis this \<Rightarrow> Some this
      | _ \<Rightarrow> (case p of None \<Rightarrow> None | Some q \<Rightarrow> find_this q))"

fun chain_to_root :: "FunctionChainBase \<Rightarrow> FunctionChainBase list" where
  "chain_to_root (FunctionChainBase k p) =
     FunctionChainBase k p # (case p of None \<Rightarrow> [] | Some q \<Rightarrow> chain_to_root q)"

text \<open>
  \<^verbatim>\<open>FunctionChainBase._build_call_data(*args, **kwargs)\<close>, with the global
  \<^verbatim>\<open>CALL_DATA_CACHE\<close> passed in and returned: the cache after the call, the calls made
  on the collaborators of the pipeline, and the exception raised or the call data
  returned.
\<close>

definition build_call_data ::
  "pipeline \<Rightarrow> native \<Rightarrow> (string \<rightharpoonup> CallData) \<Rightarrow> FunctionChainBase \<Rightarrow> pyval list
     \<Rightarrow> (string \<times> pyval) list \<Rightarrow> (string \<rightharpoonup> CallData) \<times> event list \<times> (exn + CallData)" where
  "build_call_data pl nv CALL_DATA_CACHE self args kwargs =
     (case hash_signature nv (cache_value_to_id (PYTHON_SIGNATURES nv)) self (find_this self)
             args kwargs of
        Inl e \<Rightarrow> (CALL_DATA_CACHE, [], Inl e)
      | Inr sig \<Rightarrow>
          (if ENABLE_CALLDATA_CACHE \<and> CALL_DATA_CACHE sig \<noteq> None
           then (CALL_DATA_CACHE, [], Inr (the (CALL_DATA_CACHE sig)))
           else
             (case CallData_init pl (rev (chain_to_root self)) args kwargs of
                (tr, Inl e) \<Rightarrow> (CALL_DATA_CACHE, tr, Inl e)
              | (tr, Inr res) \<Rightarrow>
                  ((if ENABLE_CALLDATA_CACHE then CALL_DATA_CACHE(sig \<mapsto> res)
                    else CALL_DATA_CACHE),
                   tr, Inr res))))"

section \<open>Notions used to state the properties\<close>

text \<open>
  The call-dimensionality contribution \<^verbatim>\<open>K\<close> of a node at the time the mappings are
  finalized, taken to be the call dimensionality \<^verbatim>\<open>D\<close> of the context while it is
  unknown.
\<close>

definition required_dimensionality :: "BindContext \<Rightarrow> BoundVariable \<Rightarrow> int" where
  "required_dimensionality context n =
     (case call_dimensionality n of None \<Rightarrow> ctx_call_dimensionality context | Some k \<Rightarrow> k)"

text \<open>
  The default mapping of the specification for a node \<^verbatim>\<open>n\<close> and the node \<^verbatim>\<open>n'\<close>
  it has become: without a valid mapping and with \<^verbatim>\<open>K \<le> D\<close>, the mapping is
  \<^verbatim>\<open>[D-K, ..., D-1]\<close>; with a valid mapping, the host side (mapping and vector type)
  is what it was, and so is a known contribution.
\<close>

definition spec_default_mapping :: "BindContext \<Rightarrow> BoundVariable \<Rightarrow> BoundVariable \<Rightarrow> bool" where
  "spec_default_mapping context n n' =
     ((\<not> valid (vector_mapping (python n))
         \<and> required_dimensionality context n \<le> ctx_call_dimensionality context \<longrightarrow>
           vector_mapping (python n') =
             Shape_of [ctx_call_dimensionality context - required_dimensionality context n
                       ..ctx_call_dimensionality context - 1])
      \<and> (valid (vector_mapping (python n)) \<longrightarrow>
           python n' = python n
           \<and> (call_dimensionality n \<noteq> None \<longrightarrow> call_dimensionality n' = call_dimensionality n)))"

text \<open>
  The call-dimensionality contribution of the specification, read off a node after the
  implicit vectorization: \<^verbatim>\<open>max(mapping)+1\<close> for a valid non-empty mapping, \<^verbatim>\<open>0\<close>
  for a valid empty one, otherwise what the host-side type resolves as the dimensionality
  needed to reach the resolved vector type.
\<close>

definition spec_contribution :: "type_ops \<Rightarrow> BindContext \<Rightarrow> BoundVariable \<Rightarrow> bool" where
  "spec_contribution ops context n =
     ((valid (vector_mapping (python n)) \<and> as_tuple (vector_mapping (python n)) \<noteq> [] \<longrightarrow>
         call_dimensionality n = Some (Max (set (as_tuple (vector_mapping (python n)))) + 1))
      \<and> (valid (vector_mapping (python n)) \<and> as_tuple (vector_mapping (python n)) = [] \<longrightarrow>
         call_dimensionality n = Some 0)
      \<and> (\<not> valid (vector_mapping (python n)) \<longrightarrow>
         (\<exists>vt k. vector_type (python n) = Some vt
            \<and> resolve_dimensionality ops (py_primal (python n)) context vt = Inr k
            \<and> call_dimensionality n = Some k)))"

text \<open>The structural signature of a call, as \<^verbatim>\<open>_build_call_data\<close> computes it.\<close>

definition signature_of ::
  "native \<Rightarrow> FunctionChainBase \<Rightarrow> pyval list \<Rightarrow> (string \<times> pyval) list \<Rightarrow> exn + string" where
  "signature_of nv self args kwargs =
     hash_signature nv (cache_value_to_id (PYTHON_SIGNATURES nv)) self (find_this self) args kwargs"


text \<open>
  The host-side tree mirrors the kernel-side tree: a host node without fields mirrors any
  kernel node; a host node with fields mirrors a kernel node that has fields, among them
  one for every field name of the host node, whose host field mirrors the kernel field of
  that name. Fields that only the kernel node has play no part.
\<close>

fun mirrors :: "PythonVariable \<Rightarrow> SlangVariable \<Rightarrow> bool" where
  "mirrors (PythonVariable n pr vt vm w df fs) sl =
     (case fs of
        None \<Rightarrow> True
      | Some python_fields \<Rightarrow>
          (case sl_fields sl of
             None \<Rightarrow> False
           | Some slang_fields \<Rightarrow>
               list_all (\<lambda>(field, child_python).
                           case map_of slang_fields field of
                             None \<Rightarrow> False
                           | Some child_slang \<Rightarrow> mirrors child_python child_slang)
                 python_fields))"

text \<open>The path of a node under the path of its parent.\<close>

definition node_path :: "string option \<Rightarrow> SlangVariable \<Rightarrow> string" where
  "node_path parent_path sl =
     (case parent_path of None \<Rightarrow> name sl | Some pp \<Rightarrow> pp @ ''.'' @ name sl)"

text \<open>
  A kernel-side node with other fields, and a bound variable paired with another
  kernel-side node.
\<close>

fun set_sl_fields :: "SlangVariable \<Rightarrow> (string \<times> SlangVariable) list option \<Rightarrow> SlangVariable" where
  "set_sl_fields (SlangVariable n pr dv io nd ptn dtn fs) v = SlangVariable n pr dv io nd ptn dtn v"

fun set_slang :: "BoundVariable \<Rightarrow> SlangVariable \<Rightarrow> BoundVariable" where
  "set_slang (BoundVariable py sl p vn acc d cd ch) v = BoundVariable py v p vn acc d cd ch"

section \<open>Concrete inputs\<close>

text \<open>
  A host type \<^verbatim>\<open>float\<close> whose marshall resolves to the kernel-side type, needs no
  dimension and emits one type alias as its call data.
\<close>

definition ex_type :: BaseType where
  "ex_type = BaseType ''float''"

definition ex_ops :: type_ops where
  "ex_ops =
     \<lparr>reduce_type = (\<lambda>t n. Inr (Some t)),
      resolve_type = (\<lambda>t c s. Inr (Some s)),
      resolve_dimensionality = (\<lambda>t c vt. Inr 0),
      gen_calldata = (\<lambda>t cgb c b.
         (cgb @ [cgb_type_alias (''_t_'' @ variable_name b) (type_name t)], None))\<rparr>"

definition ex_ctx :: BindContext where
  "ex_ctx = \<lparr>call_mode = prim, ctx_call_dimensionality = 0\<rparr>"

definition ex_cg :: CodeGen where
  "ex_cg = \<lparr>call_data_structs = [], call_data = []\<rparr>"

text \<open>
  A host dict \<^verbatim>\<open>{x: ...}\<close> whose value is not writable, bound to an \<^verbatim>\<open>out\<close>
  parameter \<^verbatim>\<open>v\<close> of a kernel-side type with the fields \<^verbatim>\<open>x\<close> and \<^verbatim>\<open>y\<close>.
\<close>

definition ex_host_x :: PythonVariable where
  "ex_host_x = PythonVariable ''x'' ex_type (Some ex_type) Shape_invalid False False None"

definition ex_host :: PythonVariable where
  "ex_host =
     PythonVariable ''v'' ex_type None Shape_invalid False False (Some [(''x'', ex_host_x)])"

definition ex_kernel_field :: "string \<Rightarrow> SlangVariable" where
  "ex_kernel_field n = SlangVariable n ex_type None out False ''float'' ''float'' None"

definition ex_kernel :: SlangVariable where
  "ex_kernel =
     SlangVariable ''v'' ex_type None out False ''float2'' ''float2''
       (Some [(''x'', ex_kernel_field ''x''), (''y'', ex_kernel_field ''y'')])"

text \<open>The same host dict with a field \<^verbatim>\<open>z\<close> that the kernel-side type does not have.\<close>

definition ex_host_xz :: PythonVariable where
  "ex_host_xz =
     PythonVariable ''v'' ex_type None Shape_invalid False False
       (Some [(''x'', ex_host_x), (''z'', ex_host_x)])"

text \<open>The binding tree of \<^verbatim>\<open>ex_host\<close> and \<^verbatim>\<open>ex_kernel\<close> as the constructor builds it.\<close>

definition ex_bound_x :: BoundVariable where
  "ex_bound_x =
     BoundVariable ex_host_x (ex_kernel_field ''x'') ''v.x'' ''x'' (none, none) False None None"

definition ex_bound :: BoundVariable where
  "ex_bound =
     BoundVariable ex_host ex_kernel ''v'' ''v'' (none, none) False None
       (Some [(''x'', ex_bound_x)])"

text \<open>
  A pipeline over these: every argument is bound to an \<^verbatim>\<open>out\<close> parameter of type
  \<^verbatim>\<open>float\<close>, and no overload is differentiable. The signature of a call is made of
  its mode and the names of the types of its arguments.
\<close>

definition ex_pipeline :: pipeline where
  "ex_pipeline =
     \<lparr>new_PythonFunctionCall = (\<lambda>c args kwargs.
         Inr \<lparr>pc_args = map (\<lambda>v. PythonVariable ''a'' (BaseType (py_type v)) None
                                   Shape_invalid False False None) args,
              pc_kwargs = []\<rparr>),
      cs_apply_explicit_vectorization = (\<lambda>c pc pos kw. Inr pc),
      cs_specialize = (\<lambda>c pc reflections type_reflection.
         Inr (Inr \<lparr>sf_name = ''plain'', sf_differentiable = False,
                    return_type_full_name = ''float'', sf_reflection = ''plain''\<rparr>)),
      new_PythonVariable = (\<lambda>c n.
         Inr (PythonVariable n ex_type None Shape_invalid True False None)),
      cs_bind = (\<lambda>c pc sf.
         case sequence_children
                (map (\<lambda>p. ([], BoundVariable_init p (ex_kernel_field (py_name p)) None None))
                   (pc_args pc)) of
           Inl e \<Rightarrow> Inl e
         | Inr as \<Rightarrow> Inr \<lparr>bc_args = map snd as, bc_kwargs = []\<rparr>),
      cs_apply_implicit_vectorization = (\<lambda>c (pc, bc).
         case BoundCall_apply_implicit_vectorization ex_ops c bc of
           Inl e \<Rightarrow> Inl e
         | Inr bc' \<Rightarrow> Inr (pc, bc')),
      has_implicit_args = (\<lambda>pc. False),
      cs_calculate_call_dimensionality = (\<lambda>bc. Inr 0),
      cs_create_return_value_binding = (\<lambda>c s rt. Inr s),
      cs_finalize_mappings = (\<lambda>c (pc, bc). Inr (pc, BoundCall_finalize_mappings c bc)),
      has_implicit_mappings = (\<lambda>pc. False),
      cs_validate_specialize = (\<lambda>c pc sf. Inr ()),
      cs_calculate_differentiability = (\<lambda>c (pc, bc).
         Inr (pc, \<lparr>bc_args = map (calculate_differentiability c) (bc_args bc),
                   bc_kwargs = map (\<lambda>(k, b). (k, calculate_differentiability c b))
                                 (bc_kwargs bc)\<rparr>)),
      cs_generate_code = (\<lambda>c f bc. Inr ''code''),
      write_shader = (\<lambda>file text. Inr ()),
      build_kernel = (\<lambda>f code. Inr ''kernel''),
      mismatch_info = (\<lambda>pc reflections. ''mismatch''),
      python_exception_info = (\<lambda>pc reflections v. ''python call''),
      bound_exception_info = (\<lambda>bc reflection v. ''bound call''),
      bound_call_table = (\<lambda>bc. ''table'')\<rparr>"

definition ex_native :: native where
  "ex_native =
     \<lparr>hash_signature = (\<lambda>cb self this args kwargs.
         case sequence_children (map (\<lambda>v. ([], cb v)) args) of
           Inl e \<Rightarrow> Inl e
         | Inr ids \<Rightarrow>
             Inr ((if FunctionChainBwdsDiff \<in> kind ` set (chain_to_root self)
                   then ''bwds:'' else ''prim:'') @ concat (map snd ids))),
      PYTHON_SIGNATURES = (\<lambda>t. Some (Some py_type))\<rparr>"

definition ex_function :: "string \<Rightarrow> FunctionChainBase" where
  "ex_function n = FunctionChainBase (Function ''module'' n) None"

definition ex_bwds :: "string \<Rightarrow> FunctionChainBase" where
  "ex_bwds n = FunctionChainBase FunctionChainBwdsDiff (Some (ex_function n))"

text \<open>A call data, as an entry of the call cache.\<close>

definition ex_call_data :: CallData where
  "ex_call_data =
     \<lparr>cd_call_mode = prim, cd_vars = [], cd_call_dimensionality = 0, cd_kernel = ''kernel'',
      cd_bindings =
        \<lparr>bc_args =
           [BoundVariable
              (PythonVariable ''a'' ex_type (Some ex_type) (Shape_of []) False False None)
              (ex_kernel_field ''a'') ''a'' ''a'' (write, none) False (Some 0) None],
         bc_kwargs = []\<rparr>\<rparr>"

text \<open>
  A differentiable \<^verbatim>\<open>in\<close> argument, and a context with three call dimensions.
\<close>

definition ex_bound_smooth :: BoundVariable where
  "ex_bound_smooth =
     BoundVariable (PythonVariable ''a'' ex_type None Shape_invalid True True None)
       (SlangVariable ''a'' ex_type (Some ex_type) inn False ''float'' ''float'' None)
       ''a'' ''a'' (none, none) False None None"

definition ex_ctx3 :: BindContext where
  "ex_ctx3 = \<lparr>call_mode = bwds, ctx_call_dimensionality = 3\<rparr>"

text \<open>An argument with the explicit mapping \<^verbatim>\<open>(0, 2)\<close>.\<close>

definition ex_bound_mapped :: BoundVariable where
  "ex_bound_mapped =
     BoundVariable (PythonVariable ''a'' ex_type None (Shape_of [0, 2]) True True None)
       (SlangVariable ''a'' ex_type (Some ex_type) inn False ''float'' ''float'' None)
       ''a'' ''a'' (none, none) False None None"

text \<open>
  The tree \<^verbatim>\<open>ex_bound\<close> after implicit vectorization, final mappings and
  differentiability in the primal mode, and its leaf \<^verbatim>\<open>x\<close>.
\<close>

definition ex_leaf :: BoundVariable where
  "ex_leaf =
     BoundVariable (PythonVariable ''x'' ex_type (Some ex_type) (Shape_of []) False False None)
       (ex_kernel_field ''x'') ''v.x'' ''x'' (write, none) False (Some 0) None"

definition ex_tree :: BoundVariable where
  "ex_tree =
     BoundVariable
       (PythonVariable ''v'' ex_type (Some ex_type) (Shape_of []) False False
          (Some [(''x'', ex_host_x)]))
       ex_kernel ''v'' ''v'' (write, none) False (Some 0) (Some [(''x'', ex_leaf)])"

text \<open>
  A host dict whose field \<^verbatim>\<open>x\<close> is itself a dict, where the kernel-side field
  \<^verbatim>\<open>x\<close> has no fields, and with a field \<^verbatim>\<open>z\<close> that the kernel-side type does
  not have.
\<close>

definition ex_host_nested :: PythonVariable where
  "ex_host_nested =
     PythonVariable ''v'' ex_type None Shape_invalid False False
       (Some [(''x'', ex_host), (''z'', ex_host_x)])"

section \<open>Auxiliary facts\<close>

subsection \<open>Reading an attribute after an assignment\<close>

lemma sel_set_access [simp]:
  "python (set_access b v) = python b" "slang (set_access b v) = slang b"
  "path (set_access b v) = path b" "variable_name (set_access b v) = variable_name b"
  "access (set_access b v) = v" "differentiable (set_access b v) = differentiable b"
  "call_dimensionality (set_access b v) = call_dimensionality b"
  "children (set_access b v) = children b"
  by (cases b; simp)+

lemma sel_set_differentiable [simp]:
  "python (set_differentiable b v) = python b" "slang (set_differentiable b v) = slang b"
  "path (set_differentiable b v) = path b"
  "variable_name (set_differentiable b v) = variable_name b"
  "access (set_differentiable b v) = access b" "differentiable (set_differentiable b v) = v"
  "call_dimensionality (set_differentiable b v) = call_dimensionality b"
  "children (set_differentiable b v) = children b"
  by (cases b; simp)+

lemma sel_set_call_dimensionality [simp]:
  "python (set_call_dimensionality b v) = python b"
  "slang (set_call_dimensionality b v) = slang b"
  "path (set_call_dimensionality b v) = path b"
  "variable_name (set_call_dimensionality b v) = variable_name b"
  "access (set_call_dimensionality b v) = access b"
  "differentiable (set_call_dimensionality b v) = differentiable b"
  "call_dimensionality (set_call_dimensionality b v) = v"
  "children (set_call_dimensionality b v) = children b"
  by (cases b; simp)+

lemma sel_set_python [simp]:
  "python (set_python b v) = v" "slang (set_python b v) = slang b"
  "path (set_python b v) = path b" "variable_name (set_python b v) = variable_name b"
  "access (set_python b v) = access b" "differentiable (set_python b v) = differentiable b"
  "call_dimensionality (set_python b v) = call_dimensionality b"
  "children (set_python b v) = children b"
  by (cases b; simp)+

lemma sel_set_children [simp]:
  "python (set_children b v) = python b" "slang (set_children b v) = slang b"
  "path (set_children b v) = path b" "variable_name (set_children b v) = variable_name b"
  "access (set_children b v) = access b" "differentiable (set_children b v) = differentiable b"
  "call_dimensionality (set_children b v) = call_dimensionality b"
  "children (set_children b v) = v"
  by (cases b; simp)+

lemma sel_set_vector_type [simp]:
  "py_name (set_vector_type b v) = py_name b" "py_primal (set_vector_type b v) = py_primal b"
  "vector_type (set_vector_type b v) = v"
  "vector_mapping (set_vector_type b v) = vector_mapping b"
  "writable (set_vector_type b v) = writable b"
  "py_differentiable (set_vector_type b v) = py_differentiable b"
  "py_fields (set_vector_type b v) = py_fields b"
  by (cases b; simp)+

lemma sel_set_vector_mapping [simp]:
  "py_name (set_vector_mapping b v) = py_name b"
  "py_primal (set_vector_mapping b v) = py_primal b"
  "vector_type (set_vector_mapping b v) = vector_type b"
  "vector_mapping (set_vector_mapping b v) = v"
  "writable (set_vector_mapping b v) = writable b"
  "py_differentiable (set_vector_mapping b v) = py_differentiable b"
  "py_fields (set_vector_mapping b v) = py_fields b"
  by (cases b; simp)+

lemma all_nodes_unfold:
  "all_nodes b =
     b # (case children b of
            None \<Rightarrow> []
          | Some cs \<Rightarrow> concat (map (\<lambda>(field, child). all_nodes child) cs))"
  by (cases b) simp

subsection \<open>Access and differentiability\<close>

lemma priv_calculate_differentiability_table:
  "priv_calculate_differentiability self mode =
     set_access self (spec_access_table mode (differentiable self) (io_type (slang self)))"
  by (cases mode; cases "differentiable self"; cases "io_type (slang self)")
     (simp_all add: priv_calculate_differentiability_def)

lemma calculate_differentiability_root:
  "differentiable (calculate_differentiability ctx bv) =
     (\<not> no_diff (slang bv) \<and> derivative (slang bv) \<noteq> None \<and> py_differentiable (python bv))"
  "python (calculate_differentiability ctx bv) = python bv"
  "slang (calculate_differentiability ctx bv) = slang bv"
  by (cases bv; simp add: priv_calculate_differentiability_table)+

lemma calculate_differentiability_nodes:
  "n \<in> set (all_nodes (calculate_differentiability ctx bv)) \<Longrightarrow>
     differentiable n =
       (\<not> no_diff (slang n) \<and> derivative (slang n) \<noteq> None \<and> py_differentiable (python n))"
proof (induction ctx bv arbitrary: n rule: calculate_differentiability.induct)
  case (1 ctx py sl p vn acc d cd ch)
  let ?b = "BoundVariable py sl p vn acc d cd ch"
  let ?r = "calculate_differentiability ctx ?b"
  show ?case
  proof (cases "n = ?r")
    case True
    then show ?thesis using calculate_differentiability_root [of ctx ?b] by simp
  next
    case False
    with "1.prems" obtain cs field child where
      ch: "ch = Some cs" and mem: "(field, child) \<in> set cs"
      and n: "n \<in> set (all_nodes (calculate_differentiability ctx child))"
      by (subst (asm) all_nodes_unfold) (auto split: option.splits)
    from "1.IH" [OF ch mem refl n] show ?thesis .
  qed
qed

subsection \<open>The default mapping\<close>

lemma fold_append_map: "fold (\<lambda>i m. m @ [f i]) xs acc = acc @ map f xs"
  by (induction xs arbitrary: acc) simp_all

lemma rev_map_upto_nat:
  "rev (map (\<lambda>i. D - i - 1) [0..int k - 1]) = [D - int k..D - 1]"
proof (induction k)
  case 0
  then show ?case by simp
next
  case (Suc k)
  have "[0..int (Suc k) - 1] = [0..int k - 1] @ [int k]"
    using upto_rec2 [of 0 "int k"] by simp
  moreover have e: "D - int (Suc k) = D - int k - 1" by simp
  have "[D - int k - 1..D - 1] = (D - int k - 1) # [D - int k..D - 1]"
    using upto_rec1 [of "D - int k - 1" "D - 1"] by simp
  then have "[D - int (Suc k)..D - 1] = (D - int k - 1) # [D - int k..D - 1]"
    by (simp only: e)
  ultimately show ?case using Suc by simp
qed

lemma rev_map_range_py: "rev (map (\<lambda>i. D - i - 1) (range_py K)) = [D - K..D - 1]"
proof (cases "0 \<le> K")
  case True
  then show ?thesis using rev_map_upto_nat [of D "nat K"] by (simp add: range_py_def)
next
  case False
  then show ?thesis by (simp add: range_py_def)
qed

lemma priv_finalize_invalid:
  assumes "\<not> valid (vector_mapping (python self))"
  shows "vector_mapping (python (priv_finalize_mappings ctx self)) =
           Shape_of [ctx_call_dimensionality ctx - required_dimensionality ctx self
                     ..ctx_call_dimensionality ctx - 1]"
  using assms
  by (cases "call_dimensionality self")
     (simp_all add: priv_finalize_mappings_def required_dimensionality_def Let_def
        fold_append_map rev_map_range_py)

lemma priv_finalize_valid:
  assumes "valid (vector_mapping (python self))"
  shows "priv_finalize_mappings ctx self =
           (if call_dimensionality self = None
            then set_call_dimensionality self (Some (ctx_call_dimensionality ctx)) else self)"
  using assms by (simp add: priv_finalize_mappings_def Let_def)

lemma priv_finalize_frame [simp]:
  "children (priv_finalize_mappings ctx self) = children self"
  "slang (priv_finalize_mappings ctx self) = slang self"
  "call_dimensionality (priv_finalize_mappings ctx self) =
     Some (required_dimensionality ctx self)"
  by (auto simp add: priv_finalize_mappings_def required_dimensionality_def Let_def)

lemma priv_finalize_children_indep:
  "python (priv_finalize_mappings ctx (set_children self cs)) =
     python (priv_finalize_mappings ctx self)"
  "required_dimensionality ctx (set_children self cs) = required_dimensionality ctx self"
  by (simp_all add: priv_finalize_mappings_def required_dimensionality_def Let_def)

lemma priv_finalize_spec: "spec_default_mapping ctx self (priv_finalize_mappings ctx self)"
proof (cases "valid (vector_mapping (python self))")
  case True
  then show ?thesis
    by (auto simp add: spec_default_mapping_def priv_finalize_valid)
next
  case False
  then show ?thesis
    by (simp add: spec_default_mapping_def priv_finalize_invalid)
qed

lemma list_all2_concat_children:
  assumes "\<And>field child. (field, child) \<in> set cs \<Longrightarrow> list_all2 P (f child) (g (h child))"
  shows "list_all2 P (concat (map (\<lambda>(field, child). f child) cs))
           (concat (map (\<lambda>(field, child). g child)
                      (map (\<lambda>(field, child). (field, h child)) cs)))"
  using assms
proof (induction cs)
  case Nil
  then show ?case by simp
next
  case (Cons c cs)
  obtain field child where c: "c = (field, child)" by (cases c)
  from Cons.prems [of field child] c have "list_all2 P (f child) (g (h child))" by simp
  moreover have "list_all2 P (concat (map (\<lambda>(field, child). f child) cs))
           (concat (map (\<lambda>(field, child). g child)
                      (map (\<lambda>(field, child). (field, h child)) cs)))"
    by (rule Cons.IH) (use Cons.prems in auto)
  ultimately show ?case using c by (simp add: list_all2_appendI)
qed

lemma finalize_mappings_nodes:
  "list_all2 (spec_default_mapping ctx) (all_nodes bv) (all_nodes (finalize_mappings ctx bv))"
proof (induction ctx bv rule: finalize_mappings.induct)
  case (1 ctx py sl p vn acc d cd ch)
  let ?b = "BoundVariable py sl p vn acc d cd ch"
  let ?ch' = "map_option (map (\<lambda>(field, child). (field, finalize_mappings ctx child))) ch"
  let ?r = "finalize_mappings ctx ?b"
  have r: "?r = priv_finalize_mappings ctx (set_children ?b ?ch')" by simp
  have "spec_default_mapping ctx (set_children ?b ?ch') ?r"
    unfolding r by (rule priv_finalize_spec)
  then have root: "spec_default_mapping ctx ?b ?r"
    by (simp add: spec_default_mapping_def required_dimensionality_def)
  have ch: "children ?r = ?ch'" unfolding r by simp
  show ?case
  proof (cases ch)
    case None
    then show ?thesis using root ch
      by (subst (2) all_nodes_unfold) (simp del: finalize_mappings.simps)
  next
    case (Some cs)
    have "list_all2 (spec_default_mapping ctx)
            (concat (map (\<lambda>(field, child). all_nodes child) cs))
            (concat (map (\<lambda>(field, child). all_nodes child)
               (map (\<lambda>(field, child). (field, finalize_mappings ctx child)) cs)))"
      by (rule list_all2_concat_children) (use "1.IH" Some in auto)
    then show ?thesis using root ch Some
      by (subst (2) all_nodes_unfold) (simp del: finalize_mappings.simps)
  qed
qed

subsection \<open>Building the tree\<close>

lemma sequence_children_Inr:
  "sequence_children xs = Inr vs \<Longrightarrow>
     list_all2 (\<lambda>(f, r) (f', v). f' = f \<and> r = Inr v) xs vs"
proof (induction xs arbitrary: vs rule: sequence_children.induct)
  case 1
  then show ?case by simp
next
  case (2 field e rest)
  then show ?case by simp
next
  case (3 field v rest)
  then show ?case by (auto split: sum.splits)
qed

lemma list_all2_in_set2:
  "list_all2 P xs ys \<Longrightarrow> y \<in> set ys \<Longrightarrow> \<exists>x \<in> set xs. P x y"
  by (induction xs ys rule: list_all2_induct) auto

lemma init_path:
  assumes "BoundVariable_init py sl ot pp = Inr bv"
  shows "path bv = (case pp of None \<Rightarrow> name sl | Some q \<Rightarrow> q @ ''.'' @ name sl)"
  using assms by (cases py) (auto simp add: Let_def split: option.splits sum.splits)

lemma init_children:
  assumes "BoundVariable_init py sl ot pp = Inr bv"
  shows "(children bv \<noteq> None) = (py_fields py \<noteq> None \<and> sl_fields sl \<noteq> None)"
  using assms by (cases py) (auto simp add: Let_def split: option.splits sum.splits)

lemma init_assert:
  "py_fields py = Some pf \<Longrightarrow> sl_fields sl = None \<Longrightarrow>
     BoundVariable_init py sl ot pp = Inl AssertionError"
  by (cases py) (simp add: Let_def)

lemma init_children_Some:
  assumes "BoundVariable_init py sl ot pp = Inr bv" "children bv = Some cs"
  shows "\<exists>pf sf. py_fields py = Some pf \<and> sl_fields sl = Some sf
           \<and> list_all2 (\<lambda>(field, cp) (field', child). field' = field \<and>
                 (\<exists>csl. map_of sf field = Some csl
                    \<and> BoundVariable_init cp csl ot (Some (path bv)) = Inr child)) pf cs"
proof (cases py)
  case (PythonVariable n pr vt vm w df fs)
  from assms PythonVariable obtain pf where fs: "fs = Some pf"
    by (cases fs) (auto simp add: Let_def)
  from assms PythonVariable fs obtain sf where sf: "sl_fields sl = Some sf"
    by (cases "sl_fields sl") (auto simp add: Let_def)
  let ?sp = "case pp of None \<Rightarrow> name sl | Some q \<Rightarrow> q @ ''.'' @ name sl"
  let ?xs = "map (\<lambda>(field, child_python).
                 (field, case map_of sf field of None \<Rightarrow> Inl (KeyError field)
                    | Some child_slang \<Rightarrow>
                        BoundVariable_init child_python child_slang ot (Some ?sp))) pf"
  from assms PythonVariable fs sf have seq: "sequence_children ?xs = Inr cs"
    by (auto simp add: Let_def split: sum.splits)
  have p: "path bv = ?sp" using init_path [OF assms(1)] .
  from sequence_children_Inr [OF seq]
  have "list_all2 (\<lambda>(field, cp) (field', child). field' = field \<and>
                 (\<exists>csl. map_of sf field = Some csl
                    \<and> BoundVariable_init cp csl ot (Some ?sp) = Inr child)) pf cs"
    by (auto simp add: list_all2_map1 split: option.splits elim!: list_all2_mono)
  with fs sf PythonVariable p show ?thesis by simp
qed

lemma list_all2_fst_eq:
  "list_all2 (\<lambda>(field, cp) (field', child). field' = field \<and> Q field cp child) pf cs
     \<Longrightarrow> map fst cs = map fst pf"
  by (induction pf cs rule: list_all2_induct) auto

lemma list_all2_fst_dom:
  "list_all2 (\<lambda>(field, cp) (field', child). field' = field \<and>
       (\<exists>csl. map_of sf field = Some csl \<and> Q cp csl child)) pf cs
     \<Longrightarrow> fst ` set pf \<subseteq> fst ` set sf"
proof (induction pf cs rule: list_all2_induct)
  case Nil
  then show ?case by simp
next
  case (Cons x xs y ys)
  then show ?case by (auto dest!: map_of_SomeD intro: rev_image_eqI)
qed

lemma set_sl_fields_sel [simp]:
  "name (set_sl_fields sl v) = name sl"
  "sl_fields (set_sl_fields sl v) = v"
  by (cases sl; simp)+

lemma node_path_set_sl_fields [simp]:
  "node_path pp (set_sl_fields sl v) = node_path pp sl"
  by (cases pp) (simp_all add: node_path_def)

lemma sequence_children_isr:
  "(\<exists>vs. sequence_children xs = Inr vs) = list_all (\<lambda>(f, r). \<not> isl r) xs"
  by (induction xs rule: sequence_children.induct) (auto split: sum.splits)

lemma sequence_children_first_error:
  "list_all (\<lambda>(f, r). \<not> isl r) pre \<Longrightarrow> sequence_children (pre @ (f, Inl e) # post) = Inl e"
proof (induction pre)
  case Nil
  then show ?case by simp
next
  case (Cons x pre)
  obtain g r where x: "x = (g, r)" by (cases x)
  with Cons.prems obtain v where r: "r = Inr v" by (cases r) auto
  from Cons x r show ?case by simp
qed

lemma init_unfold:
  "BoundVariable_init py sl ot pp =
     (case py_fields py of
        None \<Rightarrow> Inr (BoundVariable py sl (node_path pp sl) (name sl) (none, none) False None None)
      | Some pf \<Rightarrow>
          (case sl_fields sl of
             None \<Rightarrow> Inl AssertionError
           | Some sf \<Rightarrow>
               (case sequence_children
                       (map (\<lambda>(field, cp).
                               (field,
                                case map_of sf field of
                                  None \<Rightarrow> Inl (KeyError field)
                                | Some cs \<Rightarrow> BoundVariable_init cp cs ot (Some (node_path pp sl))))
                          pf) of
                  Inl e \<Rightarrow> Inl e
                | Inr cs \<Rightarrow>
                    Inr (BoundVariable py sl (node_path pp sl) (name sl) (none, none) False None
                           (Some cs)))))"
proof (cases py)
  case (PythonVariable n pr vt vm w df fs)
  show ?thesis
    unfolding PythonVariable
    by (simp add: Let_def node_path_def cong: option.case_cong sum.case_cong)
qed

lemma all_children_built:
  "list_all (\<lambda>(f, r). \<not> isl r)
      (map (\<lambda>(field, cp).
              (field, case map_of sf field of None \<Rightarrow> Inl (KeyError field)
                 | Some cs \<Rightarrow> BoundVariable_init cp cs ot q)) pf)
   = list_all (\<lambda>(field, cp). case map_of sf field of None \<Rightarrow> False
                 | Some cs \<Rightarrow> \<exists>bv. BoundVariable_init cp cs ot q = Inr bv) pf"
proof (induction pf)
  case Nil
  then show ?case by simp
next
  case (Cons x pf)
  obtain field cp where x: "x = (field, cp)" by (cases x)
  show ?case
  proof (cases "map_of sf field")
    case None
    with x show ?thesis by simp
  next
    case (Some cs)
    with x Cons show ?thesis by (cases "BoundVariable_init cp cs ot q") auto
  qed
qed

lemma init_mirrors:
  "(\<exists>bv. BoundVariable_init py sl ot pp = Inr bv) = mirrors py sl"
proof (induction py sl ot pp rule: BoundVariable_init.induct)
  case (1 n pr vt vm w df fs sl ot pp)
  let ?py = "PythonVariable n pr vt vm w df fs"
  show ?case
  proof (cases fs)
    case None
    then show ?thesis by (simp add: Let_def)
  next
    case (Some pf)
    note fs = Some
    show ?thesis
    proof (cases "sl_fields sl")
      case None
      with fs show ?thesis by (simp add: Let_def)
    next
      case (Some sf)
      let ?g = "\<lambda>(field, cp).
                  (field, case map_of sf field of None \<Rightarrow> Inl (KeyError field)
                     | Some cs \<Rightarrow> BoundVariable_init cp cs ot (Some (node_path pp sl)))"
      have ih: "\<And>field cp cs. (field, cp) \<in> set pf \<Longrightarrow> map_of sf field = Some cs \<Longrightarrow>
          (\<exists>bv. BoundVariable_init cp cs ot (Some (node_path pp sl)) = Inr bv) = mirrors cp cs"
        using "1.IH" [OF refl refl fs Some] by (simp add: node_path_def)
      have "(\<exists>bv. BoundVariable_init ?py sl ot pp = Inr bv)
              = (\<exists>vs. sequence_children (map ?g pf) = Inr vs)"
        using fs Some by (subst init_unfold) (auto split: sum.splits)
      also have "\<dots> = list_all (\<lambda>(f, r). \<not> isl r) (map ?g pf)"
        by (rule sequence_children_isr)
      also have "\<dots> = list_all (\<lambda>(field, cp). case map_of sf field of None \<Rightarrow> False
                 | Some cs \<Rightarrow> \<exists>bv. BoundVariable_init cp cs ot (Some (node_path pp sl)) = Inr bv) pf"
        by (rule all_children_built)
      also have "\<dots> = list_all (\<lambda>(field, cp). case map_of sf field of None \<Rightarrow> False
                                     | Some cs \<Rightarrow> mirrors cp cs) pf"
        unfolding list_all_iff using ih by (auto split: option.splits)
      also have "\<dots> = mirrors ?py sl" using fs Some by simp
      finally show ?thesis .
    qed
  qed
qed

lemma init_first_error:
  assumes pf: "py_fields py = Some (pre @ (f, cp) # post)" and sf: "sl_fields sl = Some sf"
    and pre: "list_all (\<lambda>(g, cq). case map_of sf g of None \<Rightarrow> False
                          | Some cs \<Rightarrow> mirrors cq cs) pre"
    and e: "(case map_of sf f of None \<Rightarrow> Inl (KeyError f)
             | Some cs \<Rightarrow> BoundVariable_init cp cs ot (Some (node_path pp sl))) = Inl e"
  shows "BoundVariable_init py sl ot pp = Inl e"
proof -
  let ?g = "\<lambda>(field, cp).
              (field, case map_of sf field of None \<Rightarrow> Inl (KeyError field)
                 | Some cs \<Rightarrow> BoundVariable_init cp cs ot (Some (node_path pp sl)))"
  have "list_all (\<lambda>(field, cp). case map_of sf field of None \<Rightarrow> False
                 | Some cs \<Rightarrow> \<exists>bv. BoundVariable_init cp cs ot (Some (node_path pp sl)) = Inr bv) pre"
    using pre unfolding list_all_iff by (auto simp add: init_mirrors split: option.splits)
  then have "list_all (\<lambda>(f, r). \<not> isl r) (map ?g pre)"
    by (simp only: all_children_built)
  then have "sequence_children (map ?g pre @ (f, Inl e) # map ?g post) = Inl e"
    by (rule sequence_children_first_error)
  with e have "sequence_children (map ?g (pre @ (f, cp) # post)) = Inl e" by simp
  with pf sf show ?thesis by (subst init_unfold) simp
qed

lemma init_extra_fields:
  assumes b: "BoundVariable_init py sl ot pp = Inr bv" and sf: "sl_fields sl = Some sf"
  shows "BoundVariable_init py (set_sl_fields sl (Some (sf @ extra))) ot pp
           = Inr (set_slang bv (set_sl_fields sl (Some (sf @ extra))))"
proof (cases "py_fields py")
  case None
  with b show ?thesis
    by (subst init_unfold, subst (asm) init_unfold) auto
next
  case (Some pf)
  let ?q = "Some (node_path pp sl)"
  let ?g = "\<lambda>sf (field, cp).
              (field, case map_of sf field of None \<Rightarrow> Inl (KeyError field)
                 | Some cs \<Rightarrow> BoundVariable_init cp cs ot ?q)"
  from b Some sf obtain cs where seq: "sequence_children (map (?g sf) pf) = Inr cs"
    and bv: "bv = BoundVariable py sl (node_path pp sl) (name sl) (none, none) False None (Some cs)"
    by (subst (asm) init_unfold) (auto split: sum.splits)
  from seq have "list_all (\<lambda>(f, r). \<not> isl r) (map (?g sf) pf)"
    using sequence_children_isr [of "map (?g sf) pf"] by blast
  then have dom: "\<And>field cp. (field, cp) \<in> set pf \<Longrightarrow> map_of sf field \<noteq> None"
    unfolding list_all_iff by (fastforce split: option.splits)
  have eq: "map (?g (sf @ extra)) pf = map (?g sf) pf"
    using dom by (fastforce simp add: map_add_def split: option.splits)
  from seq have "sequence_children (map (?g (sf @ extra)) pf) = Inr cs" by (simp only: eq)
  with Some bv show ?thesis
    by (subst init_unfold) (simp cong: option.case_cong)
qed

lemma ex_init: "BoundVariable_init ex_host ex_kernel None None = Inr ex_bound"
  by (simp add: ex_host_def ex_host_x_def ex_kernel_def ex_kernel_field_def ex_bound_def
        ex_bound_x_def Let_def)

subsection \<open>The call-dimensionality contribution\<close>

lemma max_py_Max: "xs \<noteq> [] \<Longrightarrow> max_py xs = Max (set xs)"
  by (cases xs) (simp_all add: max_py_def Max.set_eq_fold [symmetric])

lemma priv_apply_dim:
  assumes "priv_apply_implicit_vectorization ops ctx self = Inr self'"
  shows "vector_mapping (python self') = vector_mapping (python self)"
    and "py_primal (python self') = py_primal (python self)"
    and "children self' = children self"
    and "valid (vector_mapping (python self)) \<Longrightarrow>
           as_tuple (vector_mapping (python self)) \<noteq> [] \<Longrightarrow>
           call_dimensionality self' =
             Some (Max (set (as_tuple (vector_mapping (python self)))) + 1)"
    and "valid (vector_mapping (python self)) \<Longrightarrow>
           as_tuple (vector_mapping (python self)) = [] \<Longrightarrow>
           call_dimensionality self' = Some 0"
    and "\<not> valid (vector_mapping (python self)) \<Longrightarrow>
           \<exists>vt k. vector_type (python self') = Some vt
              \<and> resolve_dimensionality ops (py_primal (python self)) ctx vt = Inr k
              \<and> call_dimensionality self' = Some k"
  using assms
  by (auto simp add: priv_apply_implicit_vectorization_def max_py_Max
           split: if_splits sum.splits option.splits)

lemma priv_apply_spec:
  assumes "priv_apply_implicit_vectorization ops ctx self = Inr self'"
  shows "spec_contribution ops ctx self'"
  using priv_apply_dim [OF assms] unfolding spec_contribution_def by auto

lemma apply_implicit_vectorization_nodes:
  "apply_implicit_vectorization ops ctx bv = Inr bv' \<Longrightarrow> n \<in> set (all_nodes bv')
     \<Longrightarrow> spec_contribution ops ctx n"
proof (induction ops ctx bv arbitrary: bv' n rule: apply_implicit_vectorization.induct)
  case (1 ops ctx py sl p vn acc d cd ch)
  show ?case
  proof (cases ch)
    case None
    with "1.prems"(1) have r: "priv_apply_implicit_vectorization ops ctx
        (BoundVariable py sl p vn acc d cd None) = Inr bv'" by simp
    from priv_apply_dim(3) [OF r] have "children bv' = None" by simp
    with "1.prems"(2) have "n = bv'" by (subst (asm) all_nodes_unfold) simp
    with priv_apply_spec [OF r] show ?thesis by simp
  next
    case (Some cs)
    let ?xs = "map (\<lambda>(field, child). (field, apply_implicit_vectorization ops ctx child)) cs"
    from "1.prems"(1) Some obtain cs' where seq: "sequence_children ?xs = Inr cs'"
      and r: "priv_apply_implicit_vectorization ops ctx
        (BoundVariable py sl p vn acc d cd (Some cs')) = Inr bv'"
      by (auto split: sum.splits)
    from priv_apply_dim(3) [OF r] have ch': "children bv' = Some cs'" by simp
    show ?thesis
    proof (cases "n = bv'")
      case True
      with priv_apply_spec [OF r] show ?thesis by simp
    next
      case False
      with "1.prems"(2) ch' obtain field c' where
        mem: "(field, c') \<in> set cs'" and n: "n \<in> set (all_nodes c')"
        by (subst (asm) all_nodes_unfold) auto
      from list_all2_in_set2 [OF sequence_children_Inr [OF seq] mem]
      obtain c where "(field, c) \<in> set cs" "apply_implicit_vectorization ops ctx c = Inr c'"
        by auto
      from "1.IH" [OF Some this(1) refl this(2) n] show ?thesis .
    qed
  qed
qed

lemma priv_finalize_known:
  assumes "apply_implicit_vectorization ops ctx0 bv0 = Inr bv"
    and "n \<in> set (all_nodes bv)"
    and "valid (vector_mapping (python n))"
  shows "priv_finalize_mappings ctx n = n"
proof -
  from apply_implicit_vectorization_nodes [OF assms(1,2)] assms(3)
  have "call_dimensionality n \<noteq> None"
    by (cases "as_tuple (vector_mapping (python n)) = []") (auto simp add: spec_contribution_def)
  with priv_finalize_valid [OF assms(3), of ctx] show ?thesis by simp
qed

subsection \<open>The call cache\<close>

lemma build_cases:
  "build_call_data pl nv cache self args kwargs =
     (case signature_of nv self args kwargs of
        Inl e \<Rightarrow> (cache, [], Inl e)
      | Inr sig \<Rightarrow>
          (case cache sig of
             Some cd \<Rightarrow> (cache, [], Inr cd)
           | None \<Rightarrow>
               (case CallData_init pl (rev (chain_to_root self)) args kwargs of
                  (tr, Inl e) \<Rightarrow> (cache, tr, Inl e)
                | (tr, Inr res) \<Rightarrow> (cache(sig \<mapsto> res), tr, Inr res))))"
  by (auto simp add: build_call_data_def signature_of_def ENABLE_CALLDATA_CACHE_def
           split: sum.splits option.splits prod.splits)




subsection \<open>The construction of a call data\<close>

lemma import_fails:
  "import_from function_module_names imported_names = Inl (ImportError ''FunctionChainHook'')"
  by (simp add: import_from_def function_module_names_def imported_names_def)

lemma CallData_try_import:
  "CallData_try pl chain args kwargs =
     ([ev_import], Inl (ImportError ''FunctionChainHook'', unassigned_locals))"
  by (simp add: CallData_try_def try_step_def import_fails)

lemma CallData_init_raises:
  "CallData_init pl chain args kwargs = ([ev_import], Inl (UnboundLocalError ''bindings''))"
  by (simp add: CallData_init_def CallData_try_import unassigned_locals_def read_local_def)

lemma ex_signature:
  "signature_of ex_native (ex_function n) [PyObj ''float'' d] [] = Inr ''prim:float''"
  "signature_of ex_native (ex_bwds n) [PyObj ''float'' d] [] = Inr ''bwds:float''"
  by (simp_all add: signature_of_def ex_native_def ex_function_def ex_bwds_def
        cache_value_to_id_def)

section \<open>The access table (C1)\<close>

text \<open>
  Claim C1. For every bound variable and every call mode, \<^verbatim>\<open>_calculate_differentiability\<close>
  sets the access pair to the entry of the table of section 4.3 for the call mode, the
  differentiable flag and the direction of the kernel parameter: in the primal mode
  (read, none) for in, (write, none) for out and (readwrite, none) for inout, whatever the
  flag; in the backward mode (read, write), (none, read) and (read, readwrite) when
  differentiable and (read, none), (none, none) and (read, none) when not; (none, none) in
  the forward mode. Nothing but the access pair changes.
\<close>

theorem access_table_totality:
  "access (priv_calculate_differentiability self mode) =
     spec_access_table mode (differentiable self) (io_type (slang self))
   \<and> set_access (priv_calculate_differentiability self mode) (access self) = self"
  by (cases self) (simp add: priv_calculate_differentiability_table)

section \<open>Differentiability of a node (C9)\<close>

text \<open>
  Claim C9. \<^verbatim>\<open>calculate_differentiability\<close> marks a bound variable as differentiable
  if and only if the kernel-side variable is not marked no-diff, the kernel-side variable
  has a derivative type, and the host-side variable reports its value as differentiable.
  This holds for the node the method is called on and for every node below it.
\<close>

theorem differentiable_iff:
  "differentiable (calculate_differentiability ctx bv) =
     (\<not> no_diff (slang bv) \<and> derivative (slang bv) \<noteq> None \<and> py_differentiable (python bv))
   \<and> (\<forall>n \<in> set (all_nodes (calculate_differentiability ctx bv)).
         differentiable n =
           (\<not> no_diff (slang n) \<and> derivative (slang n) \<noteq> None \<and> py_differentiable (python n)))"
  using calculate_differentiability_root(1) [of ctx bv] calculate_differentiability_nodes [of _ ctx bv]
  by blast

theorem differentiable_iff_witness:
  "differentiable (calculate_differentiability ex_ctx3 ex_bound_smooth)
   \<and> \<not> differentiable (calculate_differentiability ex_ctx3 ex_bound)
   \<and> map differentiable (all_nodes (calculate_differentiability ex_ctx3 ex_bound)) = [False, False]"
  using differentiable_iff [of ex_ctx3 ex_bound_smooth] differentiable_iff [of ex_ctx3 ex_bound]
  by (simp add: ex_bound_smooth_def ex_bound_def ex_bound_x_def ex_host_def ex_host_x_def
        ex_kernel_def ex_kernel_field_def priv_calculate_differentiability_table)

section \<open>The default mapping (C2)\<close>

text \<open>
  Claim C2. Let \<^verbatim>\<open>D\<close> be the call dimensionality of the context and \<^verbatim>\<open>K\<close> the
  contribution of a node (\<^verbatim>\<open>D\<close> while it is unknown). When the vector mapping of the
  node is not valid and \<^verbatim>\<open>K \<le> D\<close>, \<^verbatim>\<open>_finalize_mappings\<close> assigns the node the
  mapping \<^verbatim>\<open>[D-K, D-K+1, ..., D-1]\<close>. A node with a valid mapping keeps its mapping and
  its whole host side; the node is returned as it was, but for an unknown contribution,
  which becomes \<^verbatim>\<open>D\<close>. \<^verbatim>\<open>finalize_mappings\<close> does this for every node of the tree:
  node by node, the finalized tree relates to the tree it was called on in this way. In a
  tree that the implicit vectorization has returned, every node with a valid mapping has a
  known contribution, so \<^verbatim>\<open>_finalize_mappings\<close> returns such a node as it is.
\<close>

theorem default_mapping_right_aligned:
  "(\<not> valid (vector_mapping (python self))
      \<and> required_dimensionality ctx self \<le> ctx_call_dimensionality ctx \<longrightarrow>
        vector_mapping (python (priv_finalize_mappings ctx self)) =
          Shape_of [ctx_call_dimensionality ctx - required_dimensionality ctx self
                    ..ctx_call_dimensionality ctx - 1])
   \<and> (valid (vector_mapping (python self)) \<longrightarrow>
        python (priv_finalize_mappings ctx self) = python self
        \<and> priv_finalize_mappings ctx self =
            (if call_dimensionality self = None
             then set_call_dimensionality self (Some (ctx_call_dimensionality ctx))
             else self))
   \<and> list_all2 (spec_default_mapping ctx) (all_nodes bv) (all_nodes (finalize_mappings ctx bv))
   \<and> (\<forall>ops ctx0 bv0. apply_implicit_vectorization ops ctx0 bv0 = Inr bv \<longrightarrow>
         (\<forall>n \<in> set (all_nodes bv).
            valid (vector_mapping (python n)) \<longrightarrow> priv_finalize_mappings ctx n = n))"
  using priv_finalize_invalid [of self ctx] priv_finalize_valid [of self ctx]
    finalize_mappings_nodes [of ctx bv] priv_finalize_known [where bv = bv and ctx = ctx]
  by auto

theorem default_mapping_right_aligned_witness:
  "\<not> valid (vector_mapping (python (set_call_dimensionality ex_bound_x (Some 2))))
   \<and> required_dimensionality ex_ctx3 (set_call_dimensionality ex_bound_x (Some 2)) = 2
   \<and> ctx_call_dimensionality ex_ctx3 = 3
   \<and> vector_mapping (python (priv_finalize_mappings ex_ctx3
                                (set_call_dimensionality ex_bound_x (Some 2)))) = Shape_of [1, 2]
   \<and> map (\<lambda>n. as_tuple (vector_mapping (python n))) (all_nodes (finalize_mappings ex_ctx3 ex_bound))
       = [[0, 1, 2], [0, 1, 2]]"
proof -
  have 1: "\<not> valid (vector_mapping (python (set_call_dimensionality ex_bound_x (Some 2))))"
    by (simp add: ex_bound_x_def ex_host_x_def Shape_invalid_def)
  have 2: "required_dimensionality ex_ctx3 (set_call_dimensionality ex_bound_x (Some 2)) = 2"
    by (simp add: required_dimensionality_def)
  have 3: "ctx_call_dimensionality ex_ctx3 = 3" by (simp add: ex_ctx3_def)
  from default_mapping_right_aligned [of "set_call_dimensionality ex_bound_x (Some 2)" ex_ctx3 ex_bound]
    1 2 3
  have 4: "vector_mapping (python (priv_finalize_mappings ex_ctx3
             (set_call_dimensionality ex_bound_x (Some 2)))) = Shape_of [1, 2]"
    by (simp add: upto_rec1)
  have 5: "map (\<lambda>n. as_tuple (vector_mapping (python n))) (all_nodes (finalize_mappings ex_ctx3 ex_bound))
       = [[0, 1, 2], [0, 1, 2]]"
    by (simp add: ex_bound_def ex_bound_x_def ex_host_def ex_host_x_def ex_ctx3_def
          Shape_invalid_def Shape_of_def priv_finalize_mappings_def range_py_def upto_rec1)
  from 1 2 3 4 5 show ?thesis by simp
qed

section \<open>The call-dimensionality contribution (C5)\<close>

text \<open>
  Claim C5. When \<^verbatim>\<open>_apply_implicit_vectorization\<close> has run on a bound variable, the
  vector mapping of the node is the one it had, and its call-dimensionality contribution
  is \<^verbatim>\<open>max(mapping)+1\<close> if the mapping is valid and not empty, \<^verbatim>\<open>0\<close> if it is valid
  and empty, and otherwise the dimensionality that the host-side type resolves for the
  resolved vector type. When \<^verbatim>\<open>apply_implicit_vectorization\<close> has run on a tree, this
  holds for every node of the tree.
\<close>

theorem call_dimensionality_contribution:
  "(\<forall>self'. priv_apply_implicit_vectorization ops ctx self = Inr self' \<longrightarrow>
       vector_mapping (python self') = vector_mapping (python self)
       \<and> spec_contribution ops ctx self')
   \<and> (\<forall>bv'. apply_implicit_vectorization ops ctx bv = Inr bv' \<longrightarrow>
         (\<forall>n \<in> set (all_nodes bv'). spec_contribution ops ctx n))"
  using priv_apply_dim(1) [of ops ctx self] priv_apply_spec [of ops ctx self]
    apply_implicit_vectorization_nodes [of ops ctx bv]
  by blast

theorem call_dimensionality_contribution_witness:
  "(\<exists>self'. priv_apply_implicit_vectorization ex_ops ex_ctx ex_bound_mapped = Inr self'
      \<and> valid (vector_mapping (python self'))
      \<and> as_tuple (vector_mapping (python self')) = [0, 2]
      \<and> call_dimensionality self' = Some 3)
   \<and> (\<exists>bv'. apply_implicit_vectorization ex_ops ex_ctx ex_bound = Inr bv'
      \<and> map call_dimensionality (all_nodes bv') = [Some 0, Some 0]
      \<and> list_all (spec_contribution ex_ops ex_ctx) (all_nodes bv'))"
proof -
  obtain self' where 1: "priv_apply_implicit_vectorization ex_ops ex_ctx ex_bound_mapped = Inr self'"
    and 2: "valid (vector_mapping (python self'))"
    and 3: "as_tuple (vector_mapping (python self')) = [0, 2]"
    by (simp add: priv_apply_implicit_vectorization_def ex_ops_def ex_bound_mapped_def Shape_of_def)
  from call_dimensionality_contribution [of ex_ops ex_ctx ex_bound_mapped] 1
  have "spec_contribution ex_ops ex_ctx self'" by blast
  with 2 3 have 4: "call_dimensionality self' = Some 3"
    by (simp add: spec_contribution_def)
  obtain bv' where 5: "apply_implicit_vectorization ex_ops ex_ctx ex_bound = Inr bv'"
    and 6: "map call_dimensionality (all_nodes bv') = [Some 0, Some 0]"
    by (simp add: priv_apply_implicit_vectorization_def ex_ops_def ex_bound_def ex_bound_x_def
          ex_host_def ex_host_x_def ex_kernel_def ex_kernel_field_def Shape_invalid_def)
  from call_dimensionality_contribution [of ex_ops ex_ctx _ ex_bound] 5
  have 7: "list_all (spec_contribution ex_ops ex_ctx) (all_nodes bv')"
    by (simp add: list_all_iff)
  from 1 2 3 4 have a: "\<exists>self'. priv_apply_implicit_vectorization ex_ops ex_ctx ex_bound_mapped = Inr self'
      \<and> valid (vector_mapping (python self'))
      \<and> as_tuple (vector_mapping (python self')) = [0, 2]
      \<and> call_dimensionality self' = Some 3"
    by (intro exI [of _ self']) simp
  from 5 6 7 have b: "\<exists>bv'. apply_implicit_vectorization ex_ops ex_ctx ex_bound = Inr bv'
      \<and> map call_dimensionality (all_nodes bv') = [Some 0, Some 0]
      \<and> list_all (spec_contribution ex_ops ex_ctx) (all_nodes bv')"
    by (intro exI [of _ bv']) simp
  from a b show ?thesis by (rule conjI)
qed

section \<open>Values that are not writable (C3)\<close>

text \<open>
  Claim C3, as the code has it. For a leaf that \<^verbatim>\<open>gen_call_data_code\<close> is called on at
  depth 0 (an argument of the call itself), whose primal access is write or readwrite and
  whose host-side value is not writable, code generation raises
  \<^verbatim>\<open>ValueError\<close> and emits nothing: the code generator is as it was. For a leaf at any
  depth above 0, whatever its access and whether its value is writable or not, no
  writability error is raised: the call data of the host type is generated, the statement
  for the mapping follows, and the only exception is one that \<^verbatim>\<open>gen_calldata\<close> of the
  host type raises itself.
\<close>

theorem non_writable_rejected_at_top_level:
  "(children self = None
      \<and> (fst (access self) = write \<or> fst (access self) = readwrite)
      \<and> \<not> writable (python self) \<longrightarrow>
        gen_call_data_code ops ctx self 0 cg =
          (cg, Inl (ValueError ''Cannot read back value for non-writable type'')))
   \<and> (children self = None \<and> 0 < depth \<longrightarrow>
        gen_call_data_code ops ctx self depth cg =
          (case gen_calldata ops (py_primal (python self)) (call_data_structs cg) ctx self of
             (cgb1, Some e) \<Rightarrow> (cg\<lparr>call_data_structs := cgb1\<rparr>, Inl e)
           | (cgb1, None) \<Rightarrow>
               (cg\<lparr>call_data_structs :=
                      cgb1 @ [mapping_statement (variable_name self)
                                (as_tuple (vector_mapping (python self)))]\<rparr>,
                Inr (variable_name self))))"
  by (cases self) (auto split: prod.splits option.splits)

theorem non_writable_rejected_at_top_level_witness:
  "children ex_leaf = None \<and> fst (access ex_leaf) = write \<and> \<not> writable (python ex_leaf)
   \<and> gen_call_data_code ex_ops ex_ctx ex_leaf 0 ex_cg =
       (ex_cg, Inl (ValueError ''Cannot read back value for non-writable type''))
   \<and> (0::nat) < 2
   \<and> gen_call_data_code ex_ops ex_ctx ex_leaf 2 ex_cg =
       (\<lparr>call_data_structs =
           [cgb_type_alias ''_t_x'' ''float'',
            cgb_append_statement ''static const int _m_x = 0''],
         call_data = []\<rparr>,
        Inr ''x'')"
proof -
  have 1: "children ex_leaf = None" by (simp add: ex_leaf_def)
  have 2: "fst (access ex_leaf) = write" by (simp add: ex_leaf_def)
  have 3: "\<not> writable (python ex_leaf)" by (simp add: ex_leaf_def)
  have 4: "gen_calldata ex_ops (py_primal (python ex_leaf)) (call_data_structs ex_cg) ex_ctx ex_leaf
             = ([cgb_type_alias ''_t_x'' ''float''], None)"
    by (simp add: ex_ops_def ex_leaf_def ex_cg_def ex_type_def)
  have 5: "mapping_statement (variable_name ex_leaf) (as_tuple (vector_mapping (python ex_leaf)))
             = cgb_append_statement ''static const int _m_x = 0''"
    by (simp add: ex_leaf_def mapping_statement_def Shape_of_def)
  from non_writable_rejected_at_top_level [of ex_leaf ex_ops ex_ctx ex_cg 2] 1 2 3 4 5
  show ?thesis by (simp add: ex_cg_def ex_leaf_def)
qed

text \<open>
  The claim as it was stated fails below the top level. The tree \<^verbatim>\<open>ex_tree\<close> is what
  the phases make of the host dict \<^verbatim>\<open>{x}\<close> bound to the \<^verbatim>\<open>out\<close> parameter
  \<^verbatim>\<open>v\<close>; its leaf \<^verbatim>\<open>x\<close> has the primal access write and a host value that is not
  writable. The leaf is visited at depth 1: no exception is raised and its call data is
  emitted.
\<close>

theorem non_writable_nested_leaf_counterexample:
  "map_sum id (\<lambda>t. calculate_differentiability ex_ctx (finalize_mappings ex_ctx t))
     (apply_implicit_vectorization ex_ops ex_ctx ex_bound) = Inr ex_tree
   \<and> children ex_tree = Some [(''x'', ex_leaf)]
   \<and> children ex_leaf = None \<and> fst (access ex_leaf) = write \<and> \<not> writable (python ex_leaf)
   \<and> gen_call_data_code ex_ops ex_ctx ex_tree 0 ex_cg =
       (\<lparr>call_data_structs =
           [cgb_begin_struct ''_t_v'', cgb_type_alias ''_t_x'' ''float'',
            cgb_append_statement ''static const int _m_x = 0'',
            cgb_declare ''_t_x'' ''x'', cgb_empty_line, cgb_empty_line,
            cgb_append_line ''void load_primal(IContext context, out float value)'',
            cgb_begin_block, cgb_declare ''float'' ''x'',
            cgb_append_statement ''this.x.load_primal(ctx(context, _m_x),x)'',
            cgb_assign ''value.x'' ''x'', cgb_end_block, cgb_empty_line,
            cgb_append_line ''void store_primal(IContext context, in float value)'',
            cgb_begin_block,
            cgb_append_statement ''this.x.store_primal(ctx(context, _m_x),value.x)'',
            cgb_end_block, cgb_end_struct,
            cgb_append_statement ''static const int _m_v = 0''],
         call_data = [cgb_declare ''_t_v'' ''v'']\<rparr>,
        Inr ''v'')"
proof -
  have 1: "map_sum id (\<lambda>t. calculate_differentiability ex_ctx (finalize_mappings ex_ctx t))
     (apply_implicit_vectorization ex_ops ex_ctx ex_bound) = Inr ex_tree"
    by (simp add: priv_apply_implicit_vectorization_def priv_finalize_mappings_def
          priv_calculate_differentiability_def ex_ops_def ex_ctx_def ex_bound_def ex_bound_x_def
          ex_host_def ex_host_x_def ex_kernel_def ex_kernel_field_def ex_tree_def ex_leaf_def
          ex_type_def Shape_invalid_def Shape_of_def range_py_def)
  have 2: "children ex_tree = Some [(''x'', ex_leaf)]" by (simp add: ex_tree_def)
  have 3: "children ex_leaf = None \<and> fst (access ex_leaf) = write \<and> \<not> writable (python ex_leaf)"
    by (simp add: ex_leaf_def)
  have 4: "gen_call_data_code ex_ops ex_ctx ex_tree 0 ex_cg =
       (\<lparr>call_data_structs =
           [cgb_begin_struct ''_t_v'', cgb_type_alias ''_t_x'' ''float'',
            cgb_append_statement ''static const int _m_x = 0'',
            cgb_declare ''_t_x'' ''x'', cgb_empty_line, cgb_empty_line,
            cgb_append_line ''void load_primal(IContext context, out float value)'',
            cgb_begin_block, cgb_declare ''float'' ''x'',
            cgb_append_statement ''this.x.load_primal(ctx(context, _m_x),x)'',
            cgb_assign ''value.x'' ''x'', cgb_end_block, cgb_empty_line,
            cgb_append_line ''void store_primal(IContext context, in float value)'',
            cgb_begin_block,
            cgb_append_statement ''this.x.store_primal(ctx(context, _m_x),value.x)'',
            cgb_end_block, cgb_end_struct,
            cgb_append_statement ''static const int _m_v = 0''],
         call_data = [cgb_declare ''_t_v'' ''v'']\<rparr>,
        Inr ''v'')"
    by (simp add: ex_ops_def ex_ctx_def ex_tree_def ex_leaf_def ex_host_x_def ex_kernel_def
          ex_kernel_field_def ex_type_def ex_cg_def Shape_of_def range_py_def
          gen_prim_accessors_def mapping_statement_def Let_def)
  from 1 2 3 4 show ?thesis by simp
qed

section \<open>Composite nodes mirror the host side (C4)\<close>

text \<open>
  Claim C4, as the code has it. The constructor returns a bound variable exactly when the
  host-side tree mirrors the kernel-side tree (\<^const>\<open>mirrors\<close>), so it does return
  on such a pair. The node it returns has children if and only if both paired nodes are
  composite; the children then carry the field names of the host-side node, in its order,
  every one of them is a field name of the kernel-side node, and each child is the bound
  variable built from the two fields of that name, under the path of its parent. A host
  node with fields paired with a kernel node that has none raises \<^verbatim>\<open>AssertionError\<close>.
  Otherwise the host fields are bound in their order, and at the first host field that
  cannot be bound the constructor raises: \<^verbatim>\<open>KeyError\<close> of that name when the kernel
  node has no field of that name, and the exception of the child's own constructor when it
  has one. So a host node with fields never yields a bound variable when the kernel node
  has no fields or lacks one of the host's field names; the constructor takes no code
  generator, and no bound variable exists from which code could be emitted. Fields that
  only the kernel-side node has are not bound and raise nothing: with further fields
  appended to the kernel node the constructor returns the same tree, paired with that
  kernel node at the root.
\<close>

theorem composite_structural_mirroring:
  "((\<exists>bv. BoundVariable_init py sl ot pp = Inr bv) = mirrors py sl)
   \<and> (\<forall>bv. BoundVariable_init py sl ot pp = Inr bv \<longrightarrow>
         (children bv \<noteq> None) = (py_fields py \<noteq> None \<and> sl_fields sl \<noteq> None)
       \<and> (\<forall>cs. children bv = Some cs \<longrightarrow>
            (\<exists>pf sf. py_fields py = Some pf \<and> sl_fields sl = Some sf
               \<and> map fst cs = map fst pf
               \<and> fst ` set pf \<subseteq> fst ` set sf
               \<and> list_all2 (\<lambda>(field, cp) (field', child). field' = field \<and>
                     (\<exists>csl. map_of sf field = Some csl
                        \<and> BoundVariable_init cp csl ot (Some (path bv)) = Inr child)) pf cs)))
   \<and> (\<forall>pf. py_fields py = Some pf \<and> sl_fields sl = None \<longrightarrow>
         BoundVariable_init py sl ot pp = Inl AssertionError)
   \<and> (\<forall>pre f cp post sf.
         py_fields py = Some (pre @ (f, cp) # post) \<and> sl_fields sl = Some sf
         \<and> list_all (\<lambda>(g, cq). case map_of sf g of
                                   None \<Rightarrow> False
                                 | Some cs \<Rightarrow> mirrors cq cs) pre \<longrightarrow>
           (map_of sf f = None \<longrightarrow> BoundVariable_init py sl ot pp = Inl (KeyError f))
         \<and> (\<forall>cs e. map_of sf f = Some cs
                \<and> BoundVariable_init cp cs ot (Some (node_path pp sl)) = Inl e \<longrightarrow>
              BoundVariable_init py sl ot pp = Inl e))
   \<and> (\<forall>pf. py_fields py = Some pf \<longrightarrow>
         (sl_fields sl = None \<or> \<not> fst ` set pf \<subseteq> fst ` set (the (sl_fields sl))) \<longrightarrow>
         isl (BoundVariable_init py sl ot pp))
   \<and> (\<forall>bv sf extra. BoundVariable_init py sl ot pp = Inr bv \<and> sl_fields sl = Some sf \<longrightarrow>
         BoundVariable_init py (set_sl_fields sl (Some (sf @ extra))) ot pp
           = Inr (set_slang bv (set_sl_fields sl (Some (sf @ extra)))))"
proof (intro conjI allI impI)
  show "(\<exists>bv. BoundVariable_init py sl ot pp = Inr bv) = mirrors py sl"
    by (rule init_mirrors)
next
  fix bv assume "BoundVariable_init py sl ot pp = Inr bv"
  then show "(children bv \<noteq> None) = (py_fields py \<noteq> None \<and> sl_fields sl \<noteq> None)"
    by (rule init_children)
next
  fix bv cs
  assume b: "BoundVariable_init py sl ot pp = Inr bv" and c: "children bv = Some cs"
  from init_children_Some [OF b c] obtain pf sf where
    pf: "py_fields py = Some pf" and sf: "sl_fields sl = Some sf"
    and l: "list_all2 (\<lambda>(field, cp) (field', child). field' = field \<and>
                 (\<exists>csl. map_of sf field = Some csl
                    \<and> BoundVariable_init cp csl ot (Some (path bv)) = Inr child)) pf cs"
    by blast
  from l have "map fst cs = map fst pf" by (rule list_all2_fst_eq)
  moreover from l have "fst ` set pf \<subseteq> fst ` set sf" by (rule list_all2_fst_dom)
  ultimately show "\<exists>pf sf. py_fields py = Some pf \<and> sl_fields sl = Some sf
             \<and> map fst cs = map fst pf
             \<and> fst ` set pf \<subseteq> fst ` set sf
             \<and> list_all2 (\<lambda>(field, cp) (field', child). field' = field \<and>
                   (\<exists>csl. map_of sf field = Some csl
                      \<and> BoundVariable_init cp csl ot (Some (path bv)) = Inr child)) pf cs"
    using pf sf l by blast
next
  fix pf assume "py_fields py = Some pf \<and> sl_fields sl = None"
  then show "BoundVariable_init py sl ot pp = Inl AssertionError"
    by (elim conjE) (rule init_assert)
next
  fix pre f cp post sf
  assume a: "py_fields py = Some (pre @ (f, cp) # post) \<and> sl_fields sl = Some sf
               \<and> list_all (\<lambda>(g, cq). case map_of sf g of
                                   None \<Rightarrow> False
                                 | Some cs \<Rightarrow> mirrors cq cs) pre"
    and m: "map_of sf f = None"
  from a have pf: "py_fields py = Some (pre @ (f, cp) # post)" and sf: "sl_fields sl = Some sf"
    and pre: "list_all (\<lambda>(g, cq). case map_of sf g of
                                   None \<Rightarrow> False
                                 | Some cs \<Rightarrow> mirrors cq cs) pre"
    by simp_all
  show "BoundVariable_init py sl ot pp = Inl (KeyError f)"
    by (rule init_first_error [OF pf sf pre]) (simp add: m)
next
  fix pre f cp post sf cs e
  assume a: "py_fields py = Some (pre @ (f, cp) # post) \<and> sl_fields sl = Some sf
               \<and> list_all (\<lambda>(g, cq). case map_of sf g of
                                   None \<Rightarrow> False
                                 | Some cs \<Rightarrow> mirrors cq cs) pre"
    and m: "map_of sf f = Some cs
              \<and> BoundVariable_init cp cs ot (Some (node_path pp sl)) = Inl e"
  from a have pf: "py_fields py = Some (pre @ (f, cp) # post)" and sf: "sl_fields sl = Some sf"
    and pre: "list_all (\<lambda>(g, cq). case map_of sf g of
                                   None \<Rightarrow> False
                                 | Some cs \<Rightarrow> mirrors cq cs) pre"
    by simp_all
  show "BoundVariable_init py sl ot pp = Inl e"
    by (rule init_first_error [OF pf sf pre]) (simp add: m)
next
  fix pf
  assume pf: "py_fields py = Some pf"
    and bad: "sl_fields sl = None \<or> \<not> fst ` set pf \<subseteq> fst ` set (the (sl_fields sl))"
  show "isl (BoundVariable_init py sl ot pp)"
  proof (cases "BoundVariable_init py sl ot pp")
    case (Inl e)
    then show ?thesis by simp
  next
    case (Inr bv)
    have sf: "sl_fields sl \<noteq> None"
      using init_assert [OF pf, of sl ot pp] Inr by auto
    with init_children [OF Inr] pf obtain cs where c: "children bv = Some cs" by auto
    from init_children_Some [OF Inr c] obtain sf' where
      s: "sl_fields sl = Some sf'" and
      l: "list_all2 (\<lambda>(field, cp) (field', child). field' = field \<and>
                 (\<exists>csl. map_of sf' field = Some csl
                    \<and> BoundVariable_init cp csl ot (Some (path bv)) = Inr child)) pf cs"
      using pf by auto
    from l have "fst ` set pf \<subseteq> fst ` set sf'" by (rule list_all2_fst_dom)
    with bad s show ?thesis by simp
  qed
next
  fix bv sf extra
  assume "BoundVariable_init py sl ot pp = Inr bv \<and> sl_fields sl = Some sf"
  then show "BoundVariable_init py (set_sl_fields sl (Some (sf @ extra))) ot pp
           = Inr (set_slang bv (set_sl_fields sl (Some (sf @ extra))))"
    by (elim conjE) (rule init_extra_fields)
qed

theorem composite_structural_mirroring_witness:
  "BoundVariable_init ex_host ex_kernel None None = Inr ex_bound
   \<and> mirrors ex_host ex_kernel
   \<and> (children ex_bound \<noteq> None) = (py_fields ex_host \<noteq> None \<and> sl_fields ex_kernel \<noteq> None)
   \<and> children ex_bound \<noteq> None
   \<and> sl_fields ex_kernel = Some [(''x'', ex_kernel_field ''x''), (''y'', ex_kernel_field ''y'')]
   \<and> BoundVariable_init ex_host
        (set_sl_fields ex_kernel
           (Some ([(''x'', ex_kernel_field ''x''), (''y'', ex_kernel_field ''y'')]
                    @ [(''w'', ex_kernel_field ''w'')]))) None None
       = Inr (set_slang ex_bound
                (set_sl_fields ex_kernel
                   (Some ([(''x'', ex_kernel_field ''x''), (''y'', ex_kernel_field ''y'')]
                            @ [(''w'', ex_kernel_field ''w'')]))))
   \<and> py_fields ex_host = Some [(''x'', ex_host_x)]
   \<and> sl_fields (ex_kernel_field ''v'') = None
   \<and> BoundVariable_init ex_host (ex_kernel_field ''v'') None None = Inl AssertionError
   \<and> py_fields ex_host_xz = Some ([(''x'', ex_host_x)] @ (''z'', ex_host_x) # [])
   \<and> map_of [(''x'', ex_kernel_field ''x''), (''y'', ex_kernel_field ''y'')] ''z'' = None
   \<and> BoundVariable_init ex_host_xz ex_kernel None None = Inl (KeyError ''z'')
   \<and> py_fields ex_host_nested = Some ([] @ (''x'', ex_host) # [(''z'', ex_host_x)])
   \<and> BoundVariable_init ex_host (ex_kernel_field ''x'') None (Some (node_path None ex_kernel))
       = Inl AssertionError
   \<and> BoundVariable_init ex_host_nested ex_kernel None None = Inl AssertionError"
proof -
  let ?sf = "[(''x'', ex_kernel_field ''x''), (''y'', ex_kernel_field ''y'')]"
  let ?P = "\<lambda>(g, cq). case map_of ?sf g of None \<Rightarrow> False | Some cs \<Rightarrow> mirrors cq cs"
  note host = composite_structural_mirroring [of ex_host ex_kernel None None]
  have sf: "sl_fields ex_kernel = Some ?sf" by (simp add: ex_kernel_def)
  have 1: "BoundVariable_init ex_host ex_kernel None None = Inr ex_bound" by (rule ex_init)
  have "\<exists>bv. BoundVariable_init ex_host ex_kernel None None = Inr bv" using 1 by (rule exI)
  then have 2: "mirrors ex_host ex_kernel" by (rule host [THEN conjunct1, THEN iffD1])
  have 3: "(children ex_bound \<noteq> None) = (py_fields ex_host \<noteq> None \<and> sl_fields ex_kernel \<noteq> None)"
    by (rule host [THEN conjunct2, THEN conjunct1, rule_format, OF 1, THEN conjunct1])
  have 4: "children ex_bound \<noteq> None" by (simp add: ex_bound_def)
  have 5: "BoundVariable_init ex_host
             (set_sl_fields ex_kernel (Some (?sf @ [(''w'', ex_kernel_field ''w'')]))) None None
           = Inr (set_slang ex_bound
                    (set_sl_fields ex_kernel (Some (?sf @ [(''w'', ex_kernel_field ''w'')]))))"
    by (rule host [THEN conjunct2, THEN conjunct2, THEN conjunct2, THEN conjunct2, THEN conjunct2,
          rule_format, OF conjI [OF 1 sf]])
  have 6: "py_fields ex_host = Some [(''x'', ex_host_x)]" by (simp add: ex_host_def)
  have 7: "sl_fields (ex_kernel_field ''v'') = None" by (simp add: ex_kernel_field_def)
  have 8: "BoundVariable_init ex_host (ex_kernel_field ''v'') None None = Inl AssertionError"
    by (rule composite_structural_mirroring [of ex_host "ex_kernel_field ''v''" None None,
          THEN conjunct2, THEN conjunct2, THEN conjunct1, rule_format, OF conjI [OF 6 7]])
  have 9: "py_fields ex_host_xz = Some ([(''x'', ex_host_x)] @ (''z'', ex_host_x) # [])"
    by (simp add: ex_host_xz_def)
  have 10: "list_all ?P [(''x'', ex_host_x)]" by (simp add: ex_host_x_def)
  have 11: "map_of ?sf ''z'' = None" by simp
  have 12: "BoundVariable_init ex_host_xz ex_kernel None None = Inl (KeyError ''z'')"
    by (rule composite_structural_mirroring [of ex_host_xz ex_kernel None None,
          THEN conjunct2, THEN conjunct2, THEN conjunct2, THEN conjunct1, THEN spec, THEN spec,
          THEN spec, THEN spec, THEN spec, THEN mp, OF conjI [OF 9 conjI [OF sf 10]],
          THEN conjunct1, THEN mp, OF 11])
  have 13: "py_fields ex_host_nested = Some ([] @ (''x'', ex_host) # [(''z'', ex_host_x)])"
    by (simp add: ex_host_nested_def)
  have 14: "map_of ?sf ''x'' = Some (ex_kernel_field ''x'')" by simp
  have 15: "BoundVariable_init ex_host (ex_kernel_field ''x'') None
              (Some (node_path None ex_kernel)) = Inl AssertionError"
    by (simp add: ex_host_def ex_kernel_field_def Let_def)
  have 16: "list_all ?P []" by simp
  have 17: "BoundVariable_init ex_host_nested ex_kernel None None = Inl AssertionError"
    by (rule composite_structural_mirroring [of ex_host_nested ex_kernel None None,
          THEN conjunct2, THEN conjunct2, THEN conjunct2, THEN conjunct1, THEN spec, THEN spec,
          THEN spec, THEN spec, THEN spec, THEN mp, OF conjI [OF 13 conjI [OF sf 16]],
          THEN conjunct2, THEN spec, THEN spec, THEN mp, OF conjI [OF 14 15]])
  show ?thesis
    by (intro conjI) (fact 1 2 3 4 sf 5 6 7 8 9 11 12 13 15 17)+
qed

text \<open>
  The claim as it was stated fails: the host dict \<^verbatim>\<open>{x}\<close> is bound to a kernel-side
  type with the fields \<^verbatim>\<open>x\<close> and \<^verbatim>\<open>y\<close> without any exception, and the two
  sets of child names differ.
\<close>

theorem composite_name_sets_counterexample:
  "BoundVariable_init ex_host ex_kernel None None = Inr ex_bound
   \<and> map fst (the (children ex_bound)) = [''x'']
   \<and> map fst (the (py_fields (python ex_bound))) = [''x'']
   \<and> map fst (the (sl_fields (slang ex_bound))) = [''x'', ''y'']"
  by (simp add: ex_host_def ex_host_x_def ex_kernel_def ex_kernel_field_def ex_bound_def
        ex_bound_x_def Let_def)

section \<open>The differentiability check (C6)\<close>

text \<open>
  Claim C6 at a backward-mode call of the kernel function \<^verbatim>\<open>plain\<close>, whose overloads
  are not differentiable, with one \<^verbatim>\<open>float\<close>. The construction of the call data
  stops at its first statement: the import of \<^verbatim>\<open>FunctionChainHook\<close> from
  \<^verbatim>\<open>kernelfunctions.function\<close> raises, the handler for \<^verbatim>\<open>Exception\<close> reads the
  local variable \<^verbatim>\<open>bindings\<close>, which is not assigned yet, and
  \<^verbatim>\<open>UnboundLocalError\<close> is what \<^verbatim>\<open>_build_call_data\<close> raises. The check for a
  differentiability error is never reached and no differentiability error is raised; no
  binding is built, no code is generated and the cache is left as it was.
\<close>

theorem differentiability_check_not_reached:
  "CallData_init ex_pipeline (rev (chain_to_root (ex_bwds ''plain''))) [PyObj ''float'' ''1.0''] []
     = ([ev_import], Inl (UnboundLocalError ''bindings''))
   \<and> build_call_data ex_pipeline ex_native Map.empty (ex_bwds ''plain'')
         [PyObj ''float'' ''1.0''] []
     = (Map.empty, [ev_import], Inl (UnboundLocalError ''bindings''))"
  by (simp add: build_cases ex_signature CallData_init_raises)

section \<open>The node for the result (C10)\<close>

text \<open>
  Claim C10 at a primal call of the kernel function \<^verbatim>\<open>plain\<close>, whose return type is
  \<^verbatim>\<open>float\<close>, with one \<^verbatim>\<open>float\<close> and no keyword argument. The construction of the
  call data raises \<^verbatim>\<open>UnboundLocalError\<close> after the failed import at its first
  statement: no Python variable \<^verbatim>\<open>_result\<close> is made, and neither the specialization
  nor the binding is called.
\<close>

theorem result_node_not_injected:
  "CallData_init ex_pipeline (rev (chain_to_root (ex_function ''plain''))) [PyObj ''float'' ''1.0''] []
     = ([ev_import], Inl (UnboundLocalError ''bindings''))
   \<and> ev_PythonVariable ''_result''
         \<notin> set (fst (CallData_init ex_pipeline (rev (chain_to_root (ex_function ''plain'')))
                        [PyObj ''float'' ''1.0''] []))
   \<and> ev_specialize
         \<notin> set (fst (CallData_init ex_pipeline (rev (chain_to_root (ex_function ''plain'')))
                        [PyObj ''float'' ''1.0''] []))
   \<and> ev_bind
         \<notin> set (fst (CallData_init ex_pipeline (rev (chain_to_root (ex_function ''plain'')))
                        [PyObj ''float'' ''1.0''] []))"
  by (simp add: CallData_init_raises)

section \<open>The call cache (C7, C8)\<close>




text \<open>
  Claim C8. An entry is stored in the call cache only when the construction of the call
  data has ended without an exception. When \<^verbatim>\<open>_build_call_data\<close> raises, the cache is
  as it was before the call and holds nothing under the signature of the call, and the
  next call with that signature runs the construction again, from the start. Whenever a
  call changes the cache, the construction has returned a call data, which is what is
  returned and what is stored under the signature, where nothing was stored before.
\<close>

theorem cache_insert_only_on_success:
  "(\<forall>cache1 tr e. build_call_data pl nv cache self args kwargs = (cache1, tr, Inl e) \<longrightarrow>
       cache1 = cache
       \<and> (\<forall>sig self2 args2 kwargs2.
            signature_of nv self args kwargs = Inr sig
            \<and> signature_of nv self2 args2 kwargs2 = Inr sig \<longrightarrow>
            cache1 sig = None
            \<and> build_call_data pl nv cache1 self2 args2 kwargs2 =
                (case CallData_init pl (rev (chain_to_root self2)) args2 kwargs2 of
                   (tr2, Inl e2) \<Rightarrow> (cache1, tr2, Inl e2)
                 | (tr2, Inr res) \<Rightarrow> (cache1(sig \<mapsto> res), tr2, Inr res))))
   \<and> (\<forall>cache1 tr r. build_call_data pl nv cache self args kwargs = (cache1, tr, r)
                      \<and> cache1 \<noteq> cache \<longrightarrow>
         (\<exists>sig res. signature_of nv self args kwargs = Inr sig \<and> cache sig = None
            \<and> CallData_init pl (rev (chain_to_root self)) args kwargs = (tr, Inr res)
            \<and> r = Inr res \<and> cache1 = cache(sig \<mapsto> res)))"
proof (intro conjI allI impI)
  fix cache1 tr e
  assume a: "build_call_data pl nv cache self args kwargs = (cache1, tr, Inl e)"
  then show "cache1 = cache"
    by (auto simp add: build_cases split: sum.splits option.splits prod.splits)
next
  fix cache1 tr e sig self2 args2 kwargs2
  assume a: "build_call_data pl nv cache self args kwargs = (cache1, tr, Inl e)"
    and s: "signature_of nv self args kwargs = Inr sig
            \<and> signature_of nv self2 args2 kwargs2 = Inr sig"
  from a s have n: "cache1 sig = None"
    by (auto simp add: build_cases split: sum.splits option.splits prod.splits)
  then show "cache1 sig = None" .
  from n s show "build_call_data pl nv cache1 self2 args2 kwargs2 =
                (case CallData_init pl (rev (chain_to_root self2)) args2 kwargs2 of
                   (tr2, Inl e2) \<Rightarrow> (cache1, tr2, Inl e2)
                 | (tr2, Inr res) \<Rightarrow> (cache1(sig \<mapsto> res), tr2, Inr res))"
    by (simp add: build_cases)
next
  fix cache1 tr r
  assume "build_call_data pl nv cache self args kwargs = (cache1, tr, r) \<and> cache1 \<noteq> cache"
  then show "\<exists>sig res. signature_of nv self args kwargs = Inr sig \<and> cache sig = None
            \<and> CallData_init pl (rev (chain_to_root self)) args kwargs = (tr, Inr res)
            \<and> r = Inr res \<and> cache1 = cache(sig \<mapsto> res)"
    by (auto simp add: build_cases split: sum.splits option.splits prod.splits)
qed

theorem cache_insert_only_on_success_witness:
  "build_call_data ex_pipeline ex_native [''prim:float'' \<mapsto> ex_call_data] (ex_bwds ''plain'')
     [PyObj ''float'' ''1.0''] [] =
     ([''prim:float'' \<mapsto> ex_call_data], [ev_import], Inl (UnboundLocalError ''bindings''))
   \<and> signature_of ex_native (ex_bwds ''plain'') [PyObj ''float'' ''1.0''] [] = Inr ''bwds:float''
   \<and> signature_of ex_native (ex_bwds ''plain'') [PyObj ''float'' ''2.0''] [] = Inr ''bwds:float''
   \<and> [''prim:float'' \<mapsto> ex_call_data] ''bwds:float'' = None
   \<and> build_call_data ex_pipeline ex_native [''prim:float'' \<mapsto> ex_call_data] (ex_bwds ''plain'')
       [PyObj ''float'' ''2.0''] [] =
       ([''prim:float'' \<mapsto> ex_call_data], [ev_import], Inl (UnboundLocalError ''bindings''))"
proof -
  let ?cache = "[''prim:float'' \<mapsto> ex_call_data]"
  let ?e = "UnboundLocalError ''bindings''"
  have 1: "build_call_data ex_pipeline ex_native ?cache (ex_bwds ''plain'')
             [PyObj ''float'' ''1.0''] [] = (?cache, [ev_import], Inl ?e)"
    by (simp add: build_cases ex_signature CallData_init_raises)
  have 2: "signature_of ex_native (ex_bwds ''plain'') [PyObj ''float'' ''1.0''] [] = Inr ''bwds:float''"
    by (rule ex_signature)
  have 3: "signature_of ex_native (ex_bwds ''plain'') [PyObj ''float'' ''2.0''] [] = Inr ''bwds:float''"
    by (rule ex_signature)
  note next_call = cache_insert_only_on_success [of ex_pipeline ex_native ?cache
      "ex_bwds ''plain''" "[PyObj ''float'' ''1.0'']" "[]", THEN conjunct1, rule_format, OF 1,
      THEN conjunct2, rule_format, OF conjI [OF 2 3]]
  have 4: "?cache ''bwds:float'' = None" by (rule next_call [THEN conjunct1])
  have 5: "build_call_data ex_pipeline ex_native ?cache (ex_bwds ''plain'')
             [PyObj ''float'' ''2.0''] [] = (?cache, [ev_import], Inl ?e)"
    using next_call [THEN conjunct2] by (simp add: CallData_init_raises)
  show ?thesis
    by (intro conjI) (fact 1 2 3 4 5)+
qed

end
